theory Spec2Isabelle
  imports Complex_Main
begin

section \<open>Data model\<close>

text \<open>
  The program is the single callback \<open>update_dashboard\<close> of \<open>src/src/app.py\<close>. It asks
  the market-data provider (\<open>yf.download\<close>) for two daily series, flattens their column
  axes, and derives two figures, three metric cards and a table.

  A float64 cell of a frame is a \<open>real option\<close>: \<open>None\<close> is NaN (a missing value), and
  \<open>Some x\<close> is the finite float of exact value \<open>x\<close>. Comparisons, \<open>max\<close> and \<open>min\<close> of
  finite floats are exact, so they are the ones of the reals; the products and quotients
  of the rounding are rounded to float64 (\<open>fl\<close> below).
\<close>

type_synonym cell = "real option"

text \<open>An entry of the date index: year, month, day.\<close>

datatype timestamp = Timestamp nat nat nat

text \<open>
  A frame is its date index and its columns in column order, each column under its
  label. The frames of pandas are rectangular: see \<open>rectangular\<close> below.
  A \<open>string dataframe\<close> has a single-level column axis; a \<open>(string \<times> string) dataframe\<close>
  has a two-level one, whose labels are pairs (field, ticker).
\<close>

record 'l dataframe =
  index :: "timestamp list"
  cols :: "('l \<times> cell list) list"

text \<open>What \<open>yf.download\<close> returns: \<open>isinstance(df.columns, pd.MultiIndex)\<close> is the case \<open>Multi\<close>.\<close>

datatype downloaded = Single "string dataframe" | Multi "(string \<times> string) dataframe"

text \<open>
  The start and end of a request: the values of the date picker are passed on as they
  are (\<open>Picked\<close>); a \<open>datetime.date\<close> is its proleptic Gregorian ordinal (\<open>Day\<close>), so
  that subtracting \<open>timedelta(days=365)\<close> subtracts 365.
\<close>

datatype date_arg = Picked string | Day int

record request =
  req_ticker :: string
  req_start :: date_arg
  req_end :: date_arg

text \<open>
  The provider answers a request with a frame, or raises an exception, of which only
  \<open>str(e)\<close> is used (\<open>Inl\<close>).
\<close>

type_synonym provider = "request \<Rightarrow> string + downloaded"

text \<open>The exceptions raised after the \<open>try\<close> block.\<close>

datatype error = KeyError string | IndexError | ValueError string

definition bind :: "error + 'a \<Rightarrow> ('a \<Rightarrow> error + 'b) \<Rightarrow> error + 'b" where
  "bind m f = (case m of Inl e \<Rightarrow> Inl e | Inr x \<Rightarrow> f x)"

subsection \<open>Outputs\<close>

datatype trace =
    Candlestick "string list" "cell list" "cell list" "cell list" "cell list" string
  | Scatter "string list" "cell list" string string
  | Bar "string list" "cell list" string string

text \<open>A figure: its traces, its title and the other layout arguments, in source order.\<close>

record figure =
  traces :: "trace list"
  title :: string
  layout :: "(string \<times> string) list"

text \<open>
  The paragraph of a card is a literal text, or \<open>Money v\<close> for the rendering
  \<open>f"${v:,.2f}"\<close> of the float \<open>v\<close>, which is kept symbolic.
\<close>

datatype card_text = Text string | Money cell

datatype card = CardBody string card_text

datatype tvalue = Str string | Num cell

type_synonym row = "(string \<times> tvalue) list"

text \<open>\<open>ColumnSpec n i\<close> is the dictionary \<open>{"name": n, "id": i}\<close>.\<close>

datatype column_spec = ColumnSpec string string

record outputs =
  candlestick_fig :: figure
  price_fig :: figure
  close_card :: card
  high_card :: card
  low_card :: card
  table_data :: "row list"
  table_cols :: "column_spec list"

section \<open>Library operations\<close>

subsection \<open>Strings\<close>

text \<open>\<open>str.upper\<close>, on ASCII letters.\<close>

definition upper_char :: "char \<Rightarrow> char" where
  "upper_char c =
     (if (97::nat) \<le> of_char c \<and> of_char c \<le> (122::nat)
      then char_of (of_char c - (32::nat)) else c)"

definition upper :: "string \<Rightarrow> string" where
  "upper s = map upper_char s"

fun digits :: "nat \<Rightarrow> string" where
  "digits n =
     (if n < 10 then [char_of (48 + n)]
      else digits (n div 10) @ [char_of (48 + n mod 10)])"

declare digits.simps [simp del]

definition zfill :: "nat \<Rightarrow> string \<Rightarrow> string" where
  "zfill w s = replicate (w - length s) (CHR ''0'') @ s"

text \<open>\<open>strftime("%Y-%m-%d")\<close>.\<close>

fun strftime :: "timestamp \<Rightarrow> string" where
  "strftime (Timestamp y m d) =
     zfill 4 (digits y) @ ''-'' @ zfill 2 (digits m) @ ''-'' @ zfill 2 (digits d)"

subsection \<open>Series\<close>

text \<open>\<open>Series.dropna()\<close>: the non-missing values, in order.\<close>

fun dropna :: "cell list \<Rightarrow> real list" where
  "dropna [] = []"
| "dropna (None # xs) = dropna xs"
| "dropna (Some v # xs) = v # dropna xs"

text \<open>\<open>.iloc[-1]\<close> raises IndexError on an empty series.\<close>

definition iloc_last :: "real list \<Rightarrow> error + real" where
  "iloc_last xs = (if xs = [] then Inl IndexError else Inr (last xs))"

text \<open>
  \<open>Series.max()\<close> and \<open>Series.min()\<close> skip the missing values, and are NaN when nothing
  is left.
\<close>

definition series_max :: "cell list \<Rightarrow> cell" where
  "series_max s = (case dropna s of [] \<Rightarrow> None | v # vs \<Rightarrow> Some (fold max vs v))"

definition series_min :: "cell list \<Rightarrow> cell" where
  "series_min s = (case dropna s of [] \<Rightarrow> None | v # vs \<Rightarrow> Some (fold min vs v))"

text \<open>\<open>rint\<close>: the nearest integer, a tie going to the even one.\<close>

definition rint :: "real \<Rightarrow> int" where
  "rint x =
     (let f = \<lfloor>x\<rfloor>; d = x - of_int f
      in if d < 1 / 2 then f else if 1 / 2 < d then f + 1
         else if even f then f else f + 1)"

text \<open>
  The arithmetic of float64 on finite values: the exact result of an operation is
  rounded to the nearest float, a tie going to the even mantissa. A float of the
  binade \<open>2^e \<le> |x| < 2^(e+1)\<close> is a multiple of \<open>2^(e-52)\<close>; below \<open>2^-1022\<close> the
  floats are the multiples of \<open>2^-1074\<close>. Overflow to infinity, beyond \<open>2^1024\<close>, is not
  modelled.
\<close>

definition pow2 :: "int \<Rightarrow> real" where
  "pow2 k = (if 0 \<le> k then 2 ^ nat k else 1 / 2 ^ nat (- k))"

text \<open>\<open>exponent_from n a\<close> is the greatest \<open>e\<close> from \<open>-1022\<close> to \<open>n - 1022\<close> with \<open>2^e \<le> a\<close>.\<close>

fun exponent_from :: "nat \<Rightarrow> real \<Rightarrow> int" where
  "exponent_from 0 a = - 1022"
| "exponent_from (Suc n) a =
     (if pow2 (int (Suc n) - 1022) \<le> a then int (Suc n) - 1022 else exponent_from n a)"

definition float_exponent :: "real \<Rightarrow> int" where
  "float_exponent x = exponent_from 2045 \<bar>x\<bar>"

text \<open>The float nearest to a real.\<close>

definition fl :: "real \<Rightarrow> real" where
  "fl x = (let u = pow2 (float_exponent x - 52) in of_int (rint (x / u)) * u)"

text \<open>
  \<open>Series.round(2)\<close> is numpy's rounding, computed in float64: the product by 100.0,
  \<open>rint\<close> of it, which is exact, and the quotient by 100.0. NaN stays NaN.
\<close>

definition round2 :: "real \<Rightarrow> real" where
  "round2 x = fl (of_int (rint (fl (x * 100))) / 100)"

definition series_round :: "cell list \<Rightarrow> cell list" where
  "series_round s = map (map_option round2) s"

subsection \<open>Frames\<close>

text \<open>
  \<open>df[c]\<close> on a single-level column axis whose labels are distinct, as the frames of
  \<open>ohlcv\<close> below are. On a repeated label pandas returns a frame, not a series, and the
  callback raises; the model takes the first column there.
\<close>

definition getitem :: "string dataframe \<Rightarrow> string \<Rightarrow> error + cell list" where
  "getitem df c = (case map_of (cols df) c of None \<Rightarrow> Inl (KeyError c) | Some s \<Rightarrow> Inr s)"

text \<open>\<open>df[c] = s\<close> for a column that exists: the column keeps its place.\<close>

definition setitem :: "string dataframe \<Rightarrow> string \<Rightarrow> cell list \<Rightarrow> string dataframe" where
  "setitem df c s = df\<lparr>cols := map (\<lambda>(n, v). if n = c then (n, s) else (n, v)) (cols df)\<rparr>"

text \<open>\<open>df.empty\<close>: one of the two axes has length 0.\<close>

definition df_empty :: "'l dataframe \<Rightarrow> bool" where
  "df_empty df = (index df = [] \<or> cols df = [])"

text \<open>\<open>df.columns = df.columns.get_level_values(0)\<close>, when the axis is a MultiIndex.\<close>

definition flatten :: "downloaded \<Rightarrow> string dataframe" where
  "flatten r =
     (case r of
        Single df \<Rightarrow> df
      | Multi df \<Rightarrow> \<lparr>index = index df, cols = map (\<lambda>((f, t), s). (f, s)) (cols df)\<rparr>)"

text \<open>
  \<open>df.reset_index()\<close> inserts the index as the column \<open>Date\<close>, and raises when a column
  of that name is there already. The index of the provider's frames is named \<open>Date\<close>.
\<close>

definition reset_index :: "string dataframe \<Rightarrow> error + timestamp list" where
  "reset_index df =
     (if ''Date'' \<in> set (map fst (cols df))
      then Inl (ValueError ''cannot insert Date, already exists'')
      else Inr (index df))"

text \<open>The loop that rounds the price columns of the table.\<close>

fun round_cols :: "string list \<Rightarrow> string dataframe \<Rightarrow> error + string dataframe" where
  "round_cols [] df = Inr df"
| "round_cols (c # cs) df =
     bind (getitem df c) (\<lambda>s. round_cols cs (setitem df c (series_round s)))"

text \<open>\<open>to_dict("records")\<close> of the table, whose first column is \<open>Date\<close>.\<close>

definition to_records :: "string list \<Rightarrow> string dataframe \<Rightarrow> row list" where
  "to_records dates df =
     map (\<lambda>i. (''Date'', Str (dates ! i)) # map (\<lambda>(n, s). (n, Num (s ! i))) (cols df))
       [0..<length dates]"

section \<open>The callback\<close>

subsection \<open>No ticker\<close>

definition empty_fig :: figure where
  "empty_fig =
     \<lparr>traces = [], title = ''No Ticker Selected'',
      layout = [(''template'', ''plotly_dark''),
                (''xaxis'', ''showgrid=False, zeroline=False, showticklabels=False''),
                (''yaxis'', ''showgrid=False, zeroline=False, showticklabels=False'')]\<rparr>"

definition empty_card :: card where
  "empty_card = CardBody ''N/A'' (Text ''Enter a ticker'')"

definition empty_outputs :: outputs where
  "empty_outputs =
     \<lparr>candlestick_fig = empty_fig, price_fig = empty_fig,
      close_card = empty_card, high_card = empty_card, low_card = empty_card,
      table_data = [], table_cols = []\<rparr>"

subsection \<open>The guarded block: the two downloads, the flattening, the emptiness check\<close>

definition error_fig :: "string \<Rightarrow> figure" where
  "error_fig e = \<lparr>traces = [], title = ''Error: '' @ e, layout = [(''template'', ''plotly_dark'')]\<rparr>"

definition error_card :: "string \<Rightarrow> card" where
  "error_card e = CardBody ''Error'' (Text e)"

definition error_outputs :: "string \<Rightarrow> outputs" where
  "error_outputs e =
     \<lparr>candlestick_fig = error_fig e, price_fig = error_fig e,
      close_card = error_card e, high_card = error_card e, low_card = error_card e,
      table_data = [], table_cols = []\<rparr>"

text \<open>The text of the \<open>ValueError\<close>; \<open>CHR 0x27\<close> is the apostrophe.\<close>

definition no_data_message :: "string \<Rightarrow> string" where
  "no_data_message ticker = ''No data found for ticker '' @ [CHR 0x27] @ ticker @ [CHR 0x27]"

definition chart_request :: "string \<Rightarrow> date_arg \<Rightarrow> date_arg \<Rightarrow> request" where
  "chart_request ticker start_date end_date =
     \<lparr>req_ticker = ticker, req_start = start_date, req_end = end_date\<rparr>"

definition metrics_request :: "string \<Rightarrow> int \<Rightarrow> request" where
  "metrics_request ticker today =
     (let year_ago = today - 365
      in \<lparr>req_ticker = ticker, req_start = Day year_ago, req_end = Day today\<rparr>)"

text \<open>
  The body of the \<open>try\<close>: the requests sent to the provider, in order, and either the
  text of the exception caught or the two flattened, non-empty frames. \<open>today\<close> is the
  value of \<open>date.today()\<close>.
\<close>

definition fetch_data ::
  "provider \<Rightarrow> int \<Rightarrow> string \<Rightarrow> date_arg \<Rightarrow> date_arg
     \<Rightarrow> request list \<times> (string + string dataframe \<times> string dataframe)" where
  "fetch_data provider today ticker start_date end_date =
     (let r1 = chart_request ticker start_date end_date
      in case provider r1 of
           Inl e \<Rightarrow> ([r1], Inl e)
         | Inr d1 \<Rightarrow>
             (let r2 = metrics_request ticker today
              in case provider r2 of
                   Inl e \<Rightarrow> ([r1, r2], Inl e)
                 | Inr d2 \<Rightarrow>
                     (let df_chart = flatten d1; df_metrics = flatten d2
                      in if df_empty df_chart \<or> df_empty df_metrics
                         then ([r1, r2], Inl (no_data_message ticker))
                         else ([r1, r2], Inr (df_chart, df_metrics)))))"

subsection \<open>The derivation, outside the \<open>try\<close>\<close>

definition create_figures ::
  "string \<Rightarrow> string list \<Rightarrow> string dataframe \<Rightarrow> error + figure \<times> figure" where
  "create_figures ticker dates df_chart =
     bind (getitem df_chart ''Open'') (\<lambda>opn.
     bind (getitem df_chart ''High'') (\<lambda>hi.
     bind (getitem df_chart ''Low'') (\<lambda>lo.
     bind (getitem df_chart ''Close'') (\<lambda>cls.
     bind (getitem df_chart ''Volume'') (\<lambda>vol.
       Inr (\<lparr>traces = [Candlestick dates opn hi lo cls ''Candlestick''],
             title = upper ticker @ '' Candlestick Chart'',
             layout = [(''xaxis_title'', ''Date''), (''yaxis_title'', ''Price ($)''),
                       (''template'', ''plotly_dark''),
                       (''xaxis_rangeslider_visible'', ''False'')]\<rparr>,
            \<lparr>traces = [Scatter dates cls ''lines'' ''Close'', Bar dates vol ''Volume'' ''y2''],
             title = upper ticker @ '' Close Price & Volume'',
             layout = [(''xaxis_title'', ''Date''), (''yaxis_title'', ''Price ($)''),
                       (''yaxis2'', ''title=Volume, overlaying=y, side=right''),
                       (''template'', ''plotly_dark'')]\<rparr>))))))"

text \<open>\<open>latest_close\<close>, \<open>week_52_high\<close>, \<open>week_52_low\<close>.\<close>

definition metrics :: "string dataframe \<Rightarrow> error + real \<times> cell \<times> cell" where
  "metrics df_metrics =
     bind (getitem df_metrics ''Close'') (\<lambda>cls.
     bind (iloc_last (dropna cls)) (\<lambda>latest_close.
     bind (getitem df_metrics ''High'') (\<lambda>hi.
     bind (getitem df_metrics ''Low'') (\<lambda>lo.
       Inr (latest_close, series_max hi, series_min lo)))))"

definition numeric_cols :: "string list" where
  "numeric_cols = [''Open'', ''High'', ''Low'', ''Close'']"

definition data_table ::
  "string list \<Rightarrow> string dataframe \<Rightarrow> error + row list \<times> column_spec list" where
  "data_table dates df_chart =
     bind (round_cols numeric_cols df_chart) (\<lambda>df_table.
       Inr (to_records dates df_table,
            map (\<lambda>i. ColumnSpec i i) (''Date'' # map fst (cols df_table))))"

definition derive :: "string \<Rightarrow> string dataframe \<Rightarrow> string dataframe \<Rightarrow> error + outputs" where
  "derive ticker df_chart df_metrics =
     bind (reset_index df_chart) (\<lambda>idx.
     let dates = map strftime idx in
     bind (create_figures ticker dates df_chart) (\<lambda>(candlestick, price).
     bind (metrics df_metrics) (\<lambda>(latest_close, week_52_high, week_52_low).
     bind (data_table dates df_chart) (\<lambda>(records, columns).
       Inr \<lparr>candlestick_fig = candlestick, price_fig = price,
            close_card = CardBody ''Latest Close'' (Money (Some latest_close)),
            high_card = CardBody ''52-Week High'' (Money week_52_high),
            low_card = CardBody ''52-Week Low'' (Money week_52_low),
            table_data = records, table_cols = columns\<rparr>))))"

subsection \<open>\<open>update_dashboard\<close>\<close>

text \<open>
  The result is the list of the requests sent to the provider and what the callback
  returns: the seven outputs, or the exception that leaves it. \<open>not ticker\<close> holds of
  \<open>None\<close> and of the empty string.
\<close>

definition update_dashboard ::
  "provider \<Rightarrow> int \<Rightarrow> nat \<Rightarrow> string option \<Rightarrow> date_arg \<Rightarrow> date_arg
     \<Rightarrow> request list \<times> (error + outputs)" where
  "update_dashboard provider today n_clicks ticker start_date end_date =
     (case ticker of
        None \<Rightarrow> ([], Inr empty_outputs)
      | Some t \<Rightarrow>
          if t = [] then ([], Inr empty_outputs)
          else (case fetch_data provider today t start_date end_date of
                  (calls, Inl e) \<Rightarrow> (calls, Inr (error_outputs e))
                | (calls, Inr (df_chart, df_metrics)) \<Rightarrow>
                    (calls, derive t df_chart df_metrics)))"

section \<open>Notions of the specification and sample inputs\<close>

text \<open>The number of rows (bars) of a response of the provider.\<close>

definition n_rows :: "downloaded \<Rightarrow> nat" where
  "n_rows r = (case r of Single df \<Rightarrow> length (index df) | Multi df \<Rightarrow> length (index df))"

text \<open>A provider that knows no ticker: every response has the five columns and no row.\<close>

definition no_rows :: "string dataframe" where
  "no_rows =
     \<lparr>index = [],
      cols = [(''Close'', []), (''High'', []), (''Low'', []), (''Open'', []), (''Volume'', [])]\<rparr>"

definition provider_no_rows :: provider where
  "provider_no_rows r = Inr (Single no_rows)"

text \<open>
  Two responses hold the same values when they agree on the dates, on the top-level
  names of the columns and on the values of the columns; the ticker qualifiers of a
  multi-level axis do not count.
\<close>

definition dates_of :: "downloaded \<Rightarrow> timestamp list" where
  "dates_of r = (case r of Single df \<Rightarrow> index df | Multi df \<Rightarrow> index df)"

definition top_level_names :: "downloaded \<Rightarrow> string list" where
  "top_level_names r =
     (case r of Single df \<Rightarrow> map fst (cols df) | Multi df \<Rightarrow> map (\<lambda>((f, t), s). f) (cols df))"

definition column_values :: "downloaded \<Rightarrow> cell list list" where
  "column_values r = (case r of Single df \<Rightarrow> map snd (cols df) | Multi df \<Rightarrow> map snd (cols df))"

definition same_values :: "downloaded \<Rightarrow> downloaded \<Rightarrow> bool" where
  "same_values r r' =
     (dates_of r = dates_of r' \<and> top_level_names r = top_level_names r'
      \<and> column_values r = column_values r')"

definition same_response :: "string + downloaded \<Rightarrow> string + downloaded \<Rightarrow> bool" where
  "same_response a b =
     (case a of
        Inl e \<Rightarrow> (case b of Inl e' \<Rightarrow> e = e' | Inr r' \<Rightarrow> False)
      | Inr r \<Rightarrow> (case b of Inl e' \<Rightarrow> False | Inr r' \<Rightarrow> same_values r r'))"

text \<open>Three bars of a chart series and of a metrics series; the latest close is missing.\<close>

definition sample_dates :: "timestamp list" where
  "sample_dates = [Timestamp 2024 1 2, Timestamp 2024 1 3, Timestamp 2024 1 4]"

definition sample_chart :: "string dataframe" where
  "sample_chart =
     \<lparr>index = sample_dates,
      cols = [(''Close'', [Some 123.456, Some 187.15, Some 185.125]),
              (''High'', [Some 125.5, Some 188.44, Some 186]),
              (''Low'', [Some 120.25, Some 183.89, Some 184]),
              (''Open'', [Some 122, Some 184.22, Some 185.5]),
              (''Volume'', [Some 1000, Some 2000, Some 3000])]\<rparr>"

definition sample_metrics :: "string dataframe" where
  "sample_metrics =
     \<lparr>index = sample_dates,
      cols = [(''Close'', [Some 181.91, Some 185.59, None]),
              (''High'', [Some 182.76, Some 186.4, Some 186.74]),
              (''Low'', [Some 180.17, Some 183.92, Some 185.19]),
              (''Open'', [Some 182.15, Some 184.35, Some 186.06]),
              (''Volume'', [Some 1000, Some 2000, Some 3000])]\<rparr>"

text \<open>The request of the metrics is the one whose start is a \<open>datetime.date\<close>.\<close>

definition provider_sample :: provider where
  "provider_sample r =
     (case req_start r of Picked s \<Rightarrow> Inr (Single sample_chart)
      | Day d \<Rightarrow> Inr (Single sample_metrics))"

text \<open>The same data under a two-level column axis, qualified by the ticker of the request.\<close>

definition qualify :: "string \<Rightarrow> string dataframe \<Rightarrow> (string \<times> string) dataframe" where
  "qualify t df = \<lparr>index = index df, cols = map (\<lambda>(f, s). ((f, t), s)) (cols df)\<rparr>"

definition provider_multi :: provider where
  "provider_multi r =
     (case req_start r of Picked s \<Rightarrow> Inr (Multi (qualify (req_ticker r) sample_chart))
      | Day d \<Rightarrow> Inr (Multi (qualify (req_ticker r) sample_metrics)))"

text \<open>Two bars whose closes are both missing.\<close>

definition no_close :: "string dataframe" where
  "no_close =
     \<lparr>index = [Timestamp 2024 1 2, Timestamp 2024 1 3],
      cols = [(''Close'', [None, None]),
              (''High'', [Some 10.5, Some 11]),
              (''Low'', [Some 9.5, Some 10]),
              (''Open'', [Some 10, Some 10.5]),
              (''Volume'', [Some 0, Some 0])]\<rparr>"

definition provider_no_close :: provider where
  "provider_no_close r = Inr (Single no_close)"

text \<open>A chart series with prices, and a metrics series whose closes are all missing.\<close>

definition provider_stale_metrics :: provider where
  "provider_stale_metrics r =
     (case req_start r of Picked s \<Rightarrow> Inr (Single sample_chart)
      | Day d \<Rightarrow> Inr (Single no_close))"

text \<open>A provider that is unreachable: every download raises.\<close>

definition provider_down :: provider where
  "provider_down r = Inl ''Connection refused''"

text \<open>
  The frames of pandas are rectangular: every column has one cell per entry of the
  index.
\<close>

definition rectangular :: "'l dataframe \<Rightarrow> bool" where
  "rectangular df = list_all (\<lambda>(n, s). length s = length (index df)) (cols df)"

text \<open>
  A series of daily bars, as the specification has it: a rectangular frame whose column
  names are distinct, among them the five fields, and none of them \<open>Date\<close>, the name of
  the index.
\<close>

definition ohlcv :: "string dataframe \<Rightarrow> bool" where
  "ohlcv df =
     (rectangular df \<and> distinct (map fst (cols df))
      \<and> list_all (\<lambda>c. c \<in> set (map fst (cols df)))
            [''Open'', ''High'', ''Low'', ''Close'', ''Volume'']
      \<and> ''Date'' \<notin> set (map fst (cols df)))"

text \<open>The comparison \<open><=\<close> of two floats: false when one of them is NaN.\<close>

definition cell_le :: "cell \<Rightarrow> cell \<Rightarrow> bool" where
  "cell_le a b =
     (case a of None \<Rightarrow> False
      | Some x \<Rightarrow> (case b of None \<Rightarrow> False | Some y \<Rightarrow> x \<le> y))"

text \<open>
  Rounding to two decimals as the specification words it, "standard rounding": to the
  nearest hundredth, a tie going up.
\<close>

definition round_half_up2 :: "real \<Rightarrow> real" where
  "round_half_up2 x = of_int \<lfloor>x * 100 + 1 / 2\<rfloor> / 100"

text \<open>A provider that answers the chart request and raises on the metrics request.\<close>

definition provider_metrics_down :: provider where
  "provider_metrics_down r =
     (case req_start r of Picked s \<Rightarrow> Inr (Single sample_chart)
      | Day d \<Rightarrow> Inl ''Read timed out'')"

text \<open>
  A finite float64, and a cell that the rounding of the table takes without overflow.
\<close>

definition float64 :: "real \<Rightarrow> bool" where
  "float64 x = (fl x = x \<and> \<bar>x\<bar> < 2 ^ 1024)"

definition roundable :: "cell \<Rightarrow> bool" where
  "roundable c = (case c of None \<Rightarrow> True | Some x \<Rightarrow> float64 x \<and> \<bar>x\<bar> * 100 < 2 ^ 1023)"

text \<open>The cells of the four price columns are such floats.\<close>

definition float_prices :: "string dataframe \<Rightarrow> bool" where
  "float_prices df =
     list_all (\<lambda>(n, s). n \<in> set numeric_cols \<longrightarrow> list_all roundable s) (cols df)"

text \<open>
  Two bars of a chart series whose prices are floats written exactly. The close 185.125
  (185 and one eighth) and its product by 100 are floats: rounding it to two decimals
  is a tie.
\<close>

definition sample_prices :: "string dataframe" where
  "sample_prices =
     \<lparr>index = [Timestamp 2024 1 4, Timestamp 2024 1 5],
      cols = [(''Close'', [Some 185.125, Some 186.75]),
              (''High'', [Some 186, Some 187.25]),
              (''Low'', [Some 183.5, Some 185]),
              (''Open'', [Some 184, Some 185.5]),
              (''Volume'', [Some 3000, Some 4000])]\<rparr>"

definition provider_prices :: provider where
  "provider_prices r =
     (case req_start r of Picked s \<Rightarrow> Inr (Single sample_prices)
      | Day d \<Rightarrow> Inr (Single sample_metrics))"

text \<open>\<open>table_data[i][c]\<close> of a bundle.\<close>

definition cell_at :: "nat \<Rightarrow> string \<Rightarrow> outputs \<Rightarrow> tvalue option" where
  "cell_at i c out = map_of (table_data out ! i) c"

section \<open>Properties\<close>

subsection \<open>The guarded block\<close>

lemma index_flatten: "length (index (flatten r)) = n_rows r"
  by (cases r) (simp_all add: flatten_def n_rows_def)

lemma df_empty_no_rows: "n_rows r = 0 \<Longrightarrow> df_empty (flatten r)"
  using index_flatten [of r] by (simp add: df_empty_def)

text \<open>
  C4. With the empty string as ticker the callback sends no request to the provider and
  returns the bundle of the empty state: both figures are titled "No Ticker Selected",
  the three cards read "N/A", and the data and the columns of the table are empty lists.
\<close>

theorem empty_ticker_bundle:
  "update_dashboard provider today n_clicks (Some '''') start_date end_date =
     ([], Inr empty_outputs)
   \<and> title (candlestick_fig empty_outputs) = ''No Ticker Selected''
   \<and> title (price_fig empty_outputs) = ''No Ticker Selected''
   \<and> close_card empty_outputs = CardBody ''N/A'' (Text ''Enter a ticker'')
   \<and> high_card empty_outputs = CardBody ''N/A'' (Text ''Enter a ticker'')
   \<and> low_card empty_outputs = CardBody ''N/A'' (Text ''Enter a ticker'')
   \<and> table_data empty_outputs = [] \<and> table_cols empty_outputs = []"
  by (simp add: update_dashboard_def empty_outputs_def empty_fig_def empty_card_def)

text \<open>
  C3. For a non-empty ticker, when both downloads return and one of the two series has
  no row, the callback returns the error bundle whose message is
  "No data found for ticker '<ticker>'": the message is in the title of both figures and
  in the three cards, and the data and the columns of the table are empty.
\<close>

theorem no_data_error_bundle:
  assumes "t \<noteq> []"
    and "provider (chart_request t start_date end_date) = Inr d1"
    and "provider (metrics_request t today) = Inr d2"
    and "n_rows d1 = 0 \<or> n_rows d2 = 0"
  shows "update_dashboard provider today n_clicks (Some t) start_date end_date =
        ([chart_request t start_date end_date, metrics_request t today],
         Inr (error_outputs (no_data_message t)))
    \<and> no_data_message t = ''No data found for ticker '' @ [CHR 0x27] @ t @ [CHR 0x27]
    \<and> title (candlestick_fig (error_outputs (no_data_message t))) = ''Error: '' @ no_data_message t
    \<and> title (price_fig (error_outputs (no_data_message t))) = ''Error: '' @ no_data_message t
    \<and> close_card (error_outputs (no_data_message t)) = CardBody ''Error'' (Text (no_data_message t))
    \<and> high_card (error_outputs (no_data_message t)) = CardBody ''Error'' (Text (no_data_message t))
    \<and> low_card (error_outputs (no_data_message t)) = CardBody ''Error'' (Text (no_data_message t))
    \<and> table_data (error_outputs (no_data_message t)) = []
    \<and> table_cols (error_outputs (no_data_message t)) = []"
proof -
  have "df_empty (flatten d1) \<or> df_empty (flatten d2)"
    using assms(4) df_empty_no_rows by blast
  then have "fetch_data provider today t start_date end_date =
      ([chart_request t start_date end_date, metrics_request t today], Inl (no_data_message t))"
    using assms(2,3) by (simp add: fetch_data_def Let_def)
  then show ?thesis
    using assms(1)
    by (simp add: update_dashboard_def error_outputs_def error_fig_def error_card_def
        no_data_message_def)
qed

theorem no_data_error_bundle_witness:
  "update_dashboard provider_no_rows 739000 1 (Some ''ZZZZINVALID'')
      (Picked ''2024-01-01'') (Picked ''2024-06-30'') =
     ([chart_request ''ZZZZINVALID'' (Picked ''2024-01-01'') (Picked ''2024-06-30''),
       metrics_request ''ZZZZINVALID'' 739000],
      Inr (error_outputs (no_data_message ''ZZZZINVALID'')))"
  using no_data_error_bundle [of "''ZZZZINVALID''" provider_no_rows "Picked ''2024-01-01''"
      "Picked ''2024-06-30''" "Single no_rows" 739000 "Single no_rows" 1]
  by (simp add: provider_no_rows_def n_rows_def no_rows_def)

lemma flatten_by_values:
  "flatten r = \<lparr>index = dates_of r, cols = zip (top_level_names r) (column_values r)\<rparr>"
proof (cases r)
  case (Single df)
  then show ?thesis
    by (simp add: flatten_def dates_of_def top_level_names_def column_values_def zip_map_fst_snd)
next
  case (Multi df)
  have "map (\<lambda>((f, t), s). (f, s)) xs = zip (map (\<lambda>((f, t), s). f) xs) (map snd xs)"
    for xs :: "((string \<times> string) \<times> cell list) list"
    by (induction xs) auto
  with Multi show ?thesis
    by (simp add: flatten_def dates_of_def top_level_names_def column_values_def)
qed

lemma same_values_flatten: "same_values r r' \<Longrightarrow> flatten r = flatten r'"
  by (simp add: same_values_def flatten_by_values)

lemma same_response_fetch_data:
  assumes "\<forall>r. same_response (p r) (p' r)"
  shows "fetch_data p today t start_date end_date = fetch_data p' today t start_date end_date"
proof -
  have 1: "same_response (p (chart_request t start_date end_date))
      (p' (chart_request t start_date end_date))"
    using assms by blast
  have 2: "same_response (p (metrics_request t today)) (p' (metrics_request t today))"
    using assms by blast
  show ?thesis
    using 1 2
    by (auto simp: fetch_data_def same_response_def Let_def same_values_flatten
        split: sum.splits)
qed

text \<open>
  C5. Flattening a two-level column axis keeps the top-level field name of every column
  and drops the ticker qualifier, with the dates and the values unchanged; and whenever
  two providers answer every request with responses that hold the same values (one
  multi-level, the other single-level or not), the callback sends the same requests and
  returns the same figures, cards and table.
\<close>

theorem multi_level_same_output:
  assumes "\<forall>r. same_response (p r) (p' r)"
  shows "update_dashboard p today n_clicks ticker start_date end_date =
      update_dashboard p' today n_clicks ticker start_date end_date
    \<and> map fst (cols (flatten (Multi df))) = map (\<lambda>((f, t), s). f) (cols df)
    \<and> map snd (cols (flatten (Multi df))) = map snd (cols df)
    \<and> index (flatten (Multi df)) = index df"
proof -
  have "update_dashboard p today n_clicks ticker start_date end_date =
      update_dashboard p' today n_clicks ticker start_date end_date"
    by (cases ticker) (simp_all add: update_dashboard_def same_response_fetch_data [OF assms])
  moreover have "map fst (cols (flatten (Multi df))) = map (\<lambda>((f, t), s). f) (cols df)"
    by (simp add: flatten_def case_prod_unfold comp_def)
  moreover have "map snd (cols (flatten (Multi df))) = map snd (cols df)"
    by (simp add: flatten_def case_prod_unfold comp_def)
  moreover have "index (flatten (Multi df)) = index df"
    by (simp add: flatten_def)
  ultimately show ?thesis by blast
qed

lemma provider_multi_same: "same_response (provider_multi r) (provider_sample r)"
  by (cases "req_start r")
    (simp_all add: provider_multi_def provider_sample_def same_response_def same_values_def
      dates_of_def top_level_names_def column_values_def qualify_def sample_chart_def
      sample_metrics_def)

theorem multi_level_same_output_witness:
  "update_dashboard provider_multi 739000 1 (Some ''AAPL'') (Picked ''2024-01-01'')
      (Picked ''2024-01-05'') =
   update_dashboard provider_sample 739000 1 (Some ''AAPL'') (Picked ''2024-01-01'')
      (Picked ''2024-01-05'')
   \<and> map fst (cols (flatten (Multi (qualify ''AAPL'' sample_chart)))) =
       [''Close'', ''High'', ''Low'', ''Open'', ''Volume'']"
  using multi_level_same_output [of provider_multi provider_sample 739000 1 "Some ''AAPL''"
      "Picked ''2024-01-01''" "Picked ''2024-01-05''" "qualify ''AAPL'' sample_chart"]
    provider_multi_same
  by (simp add: qualify_def sample_chart_def)

text \<open>
  C10. There is a request for which both downloads return a non-empty series and every
  close of the metrics series is missing: \<open>dropna\<close> leaves nothing, \<open>.iloc[-1]\<close> raises
  IndexError outside the \<open>try\<close>, and the callback returns no bundle.
\<close>

theorem all_closes_missing_raises:
  "fetch_data provider_no_close 739000 ''AAPL'' (Picked ''2024-01-01'') (Picked ''2024-01-05'') =
     ([chart_request ''AAPL'' (Picked ''2024-01-01'') (Picked ''2024-01-05''),
       metrics_request ''AAPL'' 739000], Inr (no_close, no_close))
   \<and> index no_close = [Timestamp 2024 1 2, Timestamp 2024 1 3]
   \<and> getitem no_close ''Close'' = Inr [None, None]
   \<and> iloc_last (dropna [None, None]) = Inl IndexError
   \<and> update_dashboard provider_no_close 739000 1 (Some ''AAPL'') (Picked ''2024-01-01'')
        (Picked ''2024-01-05'') =
     ([chart_request ''AAPL'' (Picked ''2024-01-01'') (Picked ''2024-01-05''),
       metrics_request ''AAPL'' 739000], Inl IndexError)"
  by (simp add: update_dashboard_def fetch_data_def provider_no_close_def flatten_def
      df_empty_def no_close_def derive_def reset_index_def create_figures_def metrics_def
      getitem_def bind_def iloc_last_def Let_def)

subsection \<open>What is caught and what is not\<close>

text \<open>
  C8, as the code has it. For a non-empty ticker, every failure inside the guarded block
  is caught and the callback returns the error bundle that renders its message in both
  titles and in the three cards, with an empty table: a chart download that raises, a
  metrics download that raises, and a series that is empty after the flattening (whose
  message is the one that names the ticker). When both downloads return non-empty
  series, the callback returns what the derivation returns: an exception of the
  derivation is not caught.
\<close>

theorem guarded_failures_caught:
  assumes "t \<noteq> []"
  shows "(\<forall>msg. provider (chart_request t start_date end_date) = Inl msg \<longrightarrow>
        update_dashboard provider today n_clicks (Some t) start_date end_date =
          ([chart_request t start_date end_date], Inr (error_outputs msg)))
    \<and> (\<forall>d1 msg. provider (chart_request t start_date end_date) = Inr d1
          \<and> provider (metrics_request t today) = Inl msg \<longrightarrow>
        update_dashboard provider today n_clicks (Some t) start_date end_date =
          ([chart_request t start_date end_date, metrics_request t today],
           Inr (error_outputs msg)))
    \<and> (\<forall>d1 d2. provider (chart_request t start_date end_date) = Inr d1
          \<and> provider (metrics_request t today) = Inr d2
          \<and> (df_empty (flatten d1) \<or> df_empty (flatten d2)) \<longrightarrow>
        update_dashboard provider today n_clicks (Some t) start_date end_date =
          ([chart_request t start_date end_date, metrics_request t today],
           Inr (error_outputs (no_data_message t))))
    \<and> (\<forall>d1 d2. provider (chart_request t start_date end_date) = Inr d1
          \<and> provider (metrics_request t today) = Inr d2
          \<and> \<not> df_empty (flatten d1) \<and> \<not> df_empty (flatten d2) \<longrightarrow>
        update_dashboard provider today n_clicks (Some t) start_date end_date =
          ([chart_request t start_date end_date, metrics_request t today],
           derive t (flatten d1) (flatten d2)))
    \<and> (\<forall>msg. title (candlestick_fig (error_outputs msg)) = ''Error: '' @ msg
          \<and> title (price_fig (error_outputs msg)) = ''Error: '' @ msg
          \<and> close_card (error_outputs msg) = CardBody ''Error'' (Text msg)
          \<and> high_card (error_outputs msg) = CardBody ''Error'' (Text msg)
          \<and> low_card (error_outputs msg) = CardBody ''Error'' (Text msg)
          \<and> table_data (error_outputs msg) = [] \<and> table_cols (error_outputs msg) = [])"
proof (intro conjI allI impI)
  fix msg
  assume "provider (chart_request t start_date end_date) = Inl msg"
  then have "fetch_data provider today t start_date end_date =
      ([chart_request t start_date end_date], Inl msg)"
    by (simp add: fetch_data_def Let_def)
  with assms show "update_dashboard provider today n_clicks (Some t) start_date end_date =
      ([chart_request t start_date end_date], Inr (error_outputs msg))"
    by (simp add: update_dashboard_def)
next
  fix d1 msg
  assume "provider (chart_request t start_date end_date) = Inr d1
    \<and> provider (metrics_request t today) = Inl msg"
  then have "fetch_data provider today t start_date end_date =
      ([chart_request t start_date end_date, metrics_request t today], Inl msg)"
    by (simp add: fetch_data_def Let_def)
  with assms show "update_dashboard provider today n_clicks (Some t) start_date end_date =
      ([chart_request t start_date end_date, metrics_request t today], Inr (error_outputs msg))"
    by (simp add: update_dashboard_def)
next
  fix d1 d2
  assume "provider (chart_request t start_date end_date) = Inr d1
    \<and> provider (metrics_request t today) = Inr d2
    \<and> (df_empty (flatten d1) \<or> df_empty (flatten d2))"
  then have "fetch_data provider today t start_date end_date =
      ([chart_request t start_date end_date, metrics_request t today],
       Inl (no_data_message t))"
    by (simp add: fetch_data_def Let_def)
  with assms show "update_dashboard provider today n_clicks (Some t) start_date end_date =
      ([chart_request t start_date end_date, metrics_request t today],
       Inr (error_outputs (no_data_message t)))"
    by (simp add: update_dashboard_def)
next
  fix d1 d2
  assume "provider (chart_request t start_date end_date) = Inr d1
    \<and> provider (metrics_request t today) = Inr d2
    \<and> \<not> df_empty (flatten d1) \<and> \<not> df_empty (flatten d2)"
  then have "fetch_data provider today t start_date end_date =
      ([chart_request t start_date end_date, metrics_request t today],
       Inr (flatten d1, flatten d2))"
    by (simp add: fetch_data_def Let_def)
  with assms show "update_dashboard provider today n_clicks (Some t) start_date end_date =
      ([chart_request t start_date end_date, metrics_request t today],
       derive t (flatten d1) (flatten d2))"
    by (simp add: update_dashboard_def)
qed (simp_all add: error_outputs_def error_fig_def error_card_def)

theorem guarded_failures_caught_witness:
  "update_dashboard provider_down 739000 1 (Some ''AAPL'') (Picked ''2024-01-01'')
      (Picked ''2024-01-05'') =
     ([chart_request ''AAPL'' (Picked ''2024-01-01'') (Picked ''2024-01-05'')],
      Inr (error_outputs ''Connection refused''))
   \<and> update_dashboard provider_metrics_down 739000 1 (Some ''AAPL'') (Picked ''2024-01-01'')
      (Picked ''2024-01-05'') =
     ([chart_request ''AAPL'' (Picked ''2024-01-01'') (Picked ''2024-01-05''),
       metrics_request ''AAPL'' 739000], Inr (error_outputs ''Read timed out''))
   \<and> update_dashboard provider_no_rows 739000 1 (Some ''AAPL'') (Picked ''2024-01-01'')
      (Picked ''2024-01-05'') =
     ([chart_request ''AAPL'' (Picked ''2024-01-01'') (Picked ''2024-01-05''),
       metrics_request ''AAPL'' 739000], Inr (error_outputs (no_data_message ''AAPL'')))
   \<and> update_dashboard provider_stale_metrics 739000 1 (Some ''MSFT'') (Picked ''2024-01-01'')
      (Picked ''2024-01-05'') =
     ([chart_request ''MSFT'' (Picked ''2024-01-01'') (Picked ''2024-01-05''),
       metrics_request ''MSFT'' 739000], derive ''MSFT'' sample_chart no_close)
   \<and> title (candlestick_fig (error_outputs ''Read timed out'')) = ''Error: Read timed out''"
proof -
  have a: "''AAPL'' \<noteq> []" and m: "''MSFT'' \<noteq> []"
    by simp_all
  have 1: "provider_down (chart_request ''AAPL'' (Picked ''2024-01-01'') (Picked ''2024-01-05'')) =
      Inl ''Connection refused''"
    by (simp add: provider_down_def)
  have 2: "provider_metrics_down (chart_request ''AAPL'' (Picked ''2024-01-01'')
        (Picked ''2024-01-05'')) = Inr (Single sample_chart)
      \<and> provider_metrics_down (metrics_request ''AAPL'' 739000) = Inl ''Read timed out''"
    by (simp add: provider_metrics_down_def chart_request_def metrics_request_def)
  have 3: "provider_no_rows (chart_request ''AAPL'' (Picked ''2024-01-01'')
        (Picked ''2024-01-05'')) = Inr (Single no_rows)
      \<and> provider_no_rows (metrics_request ''AAPL'' 739000) = Inr (Single no_rows)
      \<and> (df_empty (flatten (Single no_rows)) \<or> df_empty (flatten (Single no_rows)))"
    by (simp add: provider_no_rows_def df_empty_def flatten_def no_rows_def)
  have 4: "provider_stale_metrics (chart_request ''MSFT'' (Picked ''2024-01-01'')
        (Picked ''2024-01-05'')) = Inr (Single sample_chart)
      \<and> provider_stale_metrics (metrics_request ''MSFT'' 739000) = Inr (Single no_close)
      \<and> \<not> df_empty (flatten (Single sample_chart)) \<and> \<not> df_empty (flatten (Single no_close))"
    by (simp add: provider_stale_metrics_def chart_request_def metrics_request_def
        df_empty_def flatten_def sample_chart_def sample_dates_def no_close_def)
  note g = guarded_failures_caught [where n_clicks = 1 and today = 739000
      and start_date = "Picked ''2024-01-01''" and end_date = "Picked ''2024-01-05''"]
  note c1 = g [where provider = provider_down, OF a, THEN conjunct1, rule_format, OF 1]
  note c2 = g [where provider = provider_metrics_down, OF a, THEN conjunct2, THEN conjunct1, rule_format, OF 2]
  note c3 = g [where provider = provider_no_rows, OF a, THEN conjunct2, THEN conjunct2, THEN conjunct1, rule_format, OF 3]
  note c4 = g [where provider = provider_stale_metrics, OF m, THEN conjunct2, THEN conjunct2, THEN conjunct2, THEN conjunct1,
      rule_format, OF 4]
  have c5: "title (candlestick_fig (error_outputs ''Read timed out'')) = ''Error: Read timed out''"
    by (simp add: error_outputs_def error_fig_def)
  have f: "flatten (Single df) = df" for df
    by (simp add: flatten_def)
  show ?thesis
    using c1 c2 c3 c4 [unfolded f] c5 by (intro conjI)
qed

text \<open>
  The claim as written fails: with prices in the chart series and no close in the
  metrics series, both downloads succeed and the derivation raises IndexError, which
  leaves the callback.
\<close>

theorem derivation_failure_not_caught:
  "snd (update_dashboard provider_stale_metrics 739000 1 (Some ''MSFT'')
      (Picked ''2024-01-01'') (Picked ''2024-01-05'')) = Inl IndexError"
  by (simp add: update_dashboard_def fetch_data_def provider_stale_metrics_def
      chart_request_def metrics_request_def flatten_def df_empty_def sample_chart_def
      sample_dates_def no_close_def derive_def reset_index_def create_figures_def metrics_def
      getitem_def bind_def iloc_last_def Let_def)

text \<open>
  C9, as the code has it. Only the absent and the empty ticker give the bundle of the
  empty state without a request. Every other ticker, one made of whitespace included,
  is used as it is typed, not trimmed: the first request sent to the provider is the
  chart request with that very ticker, and every request sent carries it.
\<close>

theorem ticker_used_untrimmed:
  assumes "t \<noteq> []"
  shows "(\<exists>rest. fst (update_dashboard provider today n_clicks (Some t) start_date end_date) =
        \<lparr>req_ticker = t, req_start = start_date, req_end = end_date\<rparr> # rest)
    \<and> (\<forall>r \<in> set (fst (update_dashboard provider today n_clicks (Some t) start_date end_date)).
          req_ticker r = t)
    \<and> update_dashboard provider today n_clicks None start_date end_date =
        ([], Inr empty_outputs)
    \<and> update_dashboard provider today n_clicks (Some []) start_date end_date =
        ([], Inr empty_outputs)"
proof -
  have "fst (fetch_data provider today t start_date end_date) =
        [chart_request t start_date end_date]
      \<or> fst (fetch_data provider today t start_date end_date) =
        [chart_request t start_date end_date, metrics_request t today]"
    by (simp add: fetch_data_def Let_def split: sum.splits)
  moreover have "fst (update_dashboard provider today n_clicks (Some t) start_date end_date) =
      fst (fetch_data provider today t start_date end_date)"
    using assms
    by (cases "fetch_data provider today t start_date end_date")
      (auto simp: update_dashboard_def split: sum.splits)
  ultimately show ?thesis
    by (auto simp: chart_request_def metrics_request_def update_dashboard_def)
qed

theorem ticker_used_untrimmed_witness:
  "fst (update_dashboard provider_sample 739000 1 (Some ''   '') (Picked ''2024-01-01'')
      (Picked ''2024-01-05'')) =
     [\<lparr>req_ticker = ''   '', req_start = Picked ''2024-01-01'', req_end = Picked ''2024-01-05''\<rparr>,
      \<lparr>req_ticker = ''   '', req_start = Day 738635, req_end = Day 739000\<rparr>]"
  using ticker_used_untrimmed [of "''   ''" provider_sample 739000 1 "Picked ''2024-01-01''"
      "Picked ''2024-01-05''"]
  by (simp add: update_dashboard_def fetch_data_def provider_sample_def chart_request_def
      metrics_request_def flatten_def df_empty_def sample_chart_def sample_metrics_def
      sample_dates_def Let_def)

text \<open>
  The claim as written fails: the ticker of three spaces is sent to the provider twice,
  and the callback does not return the bundle of the empty state.
\<close>

theorem whitespace_ticker_is_fetched:
  "fst (update_dashboard provider_sample 739000 1 (Some ''   '') (Picked ''2024-01-01'')
      (Picked ''2024-01-05'')) =
     [chart_request ''   '' (Picked ''2024-01-01'') (Picked ''2024-01-05''),
      metrics_request ''   '' 739000]
   \<and> update_dashboard provider_sample 739000 1 (Some ''   '') (Picked ''2024-01-01'')
      (Picked ''2024-01-05'') \<noteq> ([], Inr empty_outputs)"
  by (simp add: update_dashboard_def fetch_data_def provider_sample_def chart_request_def
      metrics_request_def flatten_def df_empty_def sample_chart_def sample_metrics_def
      sample_dates_def Let_def)

subsection \<open>Series\<close>

lemma set_dropna: "set (dropna s) = {v. Some v \<in> set s}"
  by (induction s rule: dropna.induct) auto

lemma dropna_empty_iff: "dropna s = [] \<longleftrightarrow> (\<forall>c \<in> set s. c = None)"
  by (induction s rule: dropna.induct) auto

lemma last_dropna:
  "dropna s \<noteq> [] \<Longrightarrow>
     \<exists>i < length s. s ! i = Some (last (dropna s)) \<and> (\<forall>j. i < j \<and> j < length s \<longrightarrow> s ! j = None)"
proof (induction s)
  case Nil
  then show ?case by simp
next
  case (Cons c s)
  show ?case
  proof (cases "dropna s = []")
    case True
    with Cons.prems obtain v where c: "c = Some v"
      by (cases c) auto
    have "\<forall>j. 0 < j \<and> j < length (c # s) \<longrightarrow> (c # s) ! j = None"
      using True by (auto simp: dropna_empty_iff nth_Cons split: nat.splits)
    with c True show ?thesis
      by (intro exI [of _ 0]) simp
  next
    case False
    from Cons.IH [OF False] obtain i where i: "i < length s" "s ! i = Some (last (dropna s))"
      "\<forall>j. i < j \<and> j < length s \<longrightarrow> s ! j = None"
      by blast
    have l: "last (dropna (c # s)) = last (dropna s)"
      using False by (cases c) auto
    have "\<forall>j. Suc i < j \<and> j < length (c # s) \<longrightarrow> (c # s) ! j = None"
      using i(3) by (auto simp: nth_Cons split: nat.splits)
    with i l show ?thesis
      by (intro exI [of _ "Suc i"]) simp
  qed
qed

lemma series_max_upper:
  assumes "Some x \<in> set s"
  shows "\<exists>m. series_max s = Some m \<and> Some m \<in> set s \<and> (\<forall>y. Some y \<in> set s \<longrightarrow> y \<le> m)"
proof -
  from assms have "dropna s \<noteq> []"
    by (auto simp: dropna_empty_iff)
  then obtain v vs where d: "dropna s = v # vs"
    by (cases "dropna s") auto
  have m: "series_max s = Some (Max (set (dropna s)))"
    using Max.set_eq_fold [of v vs] by (simp add: series_max_def d)
  have "Max (set (dropna s)) \<in> set (dropna s)"
    using d by (intro Max_in) auto
  moreover have "\<forall>y \<in> set (dropna s). y \<le> Max (set (dropna s))"
    by simp
  ultimately show ?thesis
    using m by (auto simp: set_dropna)
qed

lemma series_min_lower:
  assumes "Some x \<in> set s"
  shows "\<exists>m. series_min s = Some m \<and> Some m \<in> set s \<and> (\<forall>y. Some y \<in> set s \<longrightarrow> m \<le> y)"
proof -
  from assms have "dropna s \<noteq> []"
    by (auto simp: dropna_empty_iff)
  then obtain v vs where d: "dropna s = v # vs"
    by (cases "dropna s") auto
  have m: "series_min s = Some (Min (set (dropna s)))"
    using Min.set_eq_fold [of v vs] by (simp add: series_min_def d)
  have "Min (set (dropna s)) \<in> set (dropna s)"
    using d by (intro Min_in) auto
  moreover have "\<forall>y \<in> set (dropna s). Min (set (dropna s)) \<le> y"
    by simp
  ultimately show ?thesis
    using m by (auto simp: set_dropna)
qed

lemma series_max_all_missing: "(\<forall>c \<in> set s. c = None) \<Longrightarrow> series_max s = None"
  using dropna_empty_iff [of s] by (simp add: series_max_def)

lemma series_min_all_missing: "(\<forall>c \<in> set s. c = None) \<Longrightarrow> series_min s = None"
  using dropna_empty_iff [of s] by (simp add: series_min_def)

subsection \<open>Frames\<close>

lemma getitem_Inr: "getitem df c = Inr s \<longleftrightarrow> map_of (cols df) c = Some s"
  by (simp add: getitem_def split: option.splits)

lemma getitem_in_cols: "getitem df c = Inr s \<Longrightarrow> (c, s) \<in> set (cols df)"
  by (simp add: getitem_Inr map_of_SomeD)

lemma getitem_present:
  "c \<in> set (map fst (cols df)) \<Longrightarrow> \<exists>s. getitem df c = Inr s"
  by (cases "map_of (cols df) c") (auto simp: getitem_def map_of_eq_None_iff)

lemma rectangular_length:
  "rectangular df \<Longrightarrow> getitem df c = Inr s \<Longrightarrow> length s = length (index df)"
  by (auto simp: rectangular_def list_all_iff dest: getitem_in_cols)

lemma fetch_data_success:
  assumes "snd (fetch_data provider today t start_date end_date) = Inr (df_chart, df_metrics)"
  shows "\<exists>d1 d2. provider (chart_request t start_date end_date) = Inr d1
      \<and> provider (metrics_request t today) = Inr d2
      \<and> df_chart = flatten d1 \<and> df_metrics = flatten d2
      \<and> \<not> df_empty df_chart \<and> \<not> df_empty df_metrics
      \<and> fst (fetch_data provider today t start_date end_date) =
          [chart_request t start_date end_date, metrics_request t today]"
  using assms by (auto simp: fetch_data_def Let_def split: sum.splits if_splits)

lemma fetch_data_ok:
  assumes "provider (chart_request t start_date end_date) = Inr d1"
    and "provider (metrics_request t today) = Inr d2"
    and "\<not> df_empty (flatten d1)" and "\<not> df_empty (flatten d2)"
  shows "fetch_data provider today t start_date end_date =
      ([chart_request t start_date end_date, metrics_request t today],
       Inr (flatten d1, flatten d2))"
  using assms by (simp add: fetch_data_def Let_def)

lemma update_dashboard_derive:
  assumes "t \<noteq> []"
    and "snd (fetch_data provider today t start_date end_date) = Inr (df_chart, df_metrics)"
  shows "snd (update_dashboard provider today n_clicks (Some t) start_date end_date) =
      derive t df_chart df_metrics"
  using assms
  by (cases "fetch_data provider today t start_date end_date") (simp add: update_dashboard_def)

subsection \<open>The metrics\<close>

lemma derive_cards:
  assumes "derive t df_chart df_metrics = Inr out"
  shows "\<exists>cls hi lo latest.
      getitem df_metrics ''Close'' = Inr cls \<and> dropna cls \<noteq> [] \<and> latest = last (dropna cls)
    \<and> getitem df_metrics ''High'' = Inr hi \<and> getitem df_metrics ''Low'' = Inr lo
    \<and> close_card out = CardBody ''Latest Close'' (Money (Some latest))
    \<and> high_card out = CardBody ''52-Week High'' (Money (series_max hi))
    \<and> low_card out = CardBody ''52-Week Low'' (Money (series_min lo))"
  using assms
  by (auto simp: derive_def metrics_def bind_def iloc_last_def Let_def
      split: sum.splits prod.splits if_splits)

lemma map_of_replace:
  "map_of (map (\<lambda>(n, v). if n = c then (n, s) else (n, v)) xs) k =
     (if k = c then (if map_of xs c = None then None else Some s) else map_of xs k)"
  by (induction xs) auto

lemma map_of_setitem:
  "map_of (cols (setitem df c s)) k =
     (if k = c then (if map_of (cols df) c = None then None else Some s)
      else map_of (cols df) k)"
  by (simp add: setitem_def map_of_replace)

lemma names_setitem: "map fst (cols (setitem df c s)) = map fst (cols df)"
proof -
  have "map fst (map (\<lambda>(n, v). if n = c then (n, s) else (n, v)) xs) = map fst xs"
    for xs :: "(string \<times> cell list) list"
    by (induction xs) auto
  then show ?thesis by (simp add: setitem_def)
qed

lemma index_setitem: "index (setitem df c s) = index df"
  by (simp add: setitem_def)

lemma round_cols_result:
  assumes "round_cols cs df = Inr df'" and "distinct cs"
  shows "map fst (cols df') = map fst (cols df) \<and> index df' = index df
    \<and> (\<forall>k. map_of (cols df') k =
          (if k \<in> set cs then map_option series_round (map_of (cols df) k)
           else map_of (cols df) k))"
  using assms
proof (induction cs arbitrary: df)
  case Nil
  then show ?case by simp
next
  case (Cons c cs)
  from Cons.prems(1) obtain s where s: "getitem df c = Inr s"
    and r: "round_cols cs (setitem df c (series_round s)) = Inr df'"
    by (auto simp: bind_def split: sum.splits)
  from Cons.prems(2) have d: "distinct cs" and c: "c \<notin> set cs"
    by simp_all
  note ih = Cons.IH [OF r d]
  have m: "map_of (cols df) c = Some s"
    using s by (simp add: getitem_Inr)
  show ?case
    using ih c m by (auto simp: names_setitem index_setitem map_of_setitem)
qed

lemma round_cols_returns:
  "set cs \<subseteq> set (map fst (cols df)) \<Longrightarrow> \<exists>df'. round_cols cs df = Inr df'"
proof (induction cs arbitrary: df)
  case Nil
  then show ?case by simp
next
  case (Cons c cs)
  then obtain s where s: "getitem df c = Inr s"
    using getitem_present [of c df] by auto
  have "set cs \<subseteq> set (map fst (cols (setitem df c (series_round s))))"
    using Cons.prems by (simp add: names_setitem)
  from Cons.IH [OF this] s show ?case
    by (simp add: bind_def)
qed

lemma derive_returns:
  assumes "ohlcv df_chart" and "ohlcv df_metrics"
    and "getitem df_metrics ''Close'' = Inr cls" and "Some v \<in> set cls"
  shows "\<exists>out. derive t df_chart df_metrics = Inr out"
proof -
  have names: "''Open'' \<in> set (map fst (cols df_chart))" "''High'' \<in> set (map fst (cols df_chart))"
    "''Low'' \<in> set (map fst (cols df_chart))" "''Close'' \<in> set (map fst (cols df_chart))"
    "''Volume'' \<in> set (map fst (cols df_chart))" "''Date'' \<notin> set (map fst (cols df_chart))"
    using assms(1) by (simp_all add: ohlcv_def)
  obtain opn hi lo cl vol where chart: "getitem df_chart ''Open'' = Inr opn"
    "getitem df_chart ''High'' = Inr hi" "getitem df_chart ''Low'' = Inr lo"
    "getitem df_chart ''Close'' = Inr cl" "getitem df_chart ''Volume'' = Inr vol"
    using names(1-5) getitem_present [of _ df_chart] by metis
  have "''High'' \<in> set (map fst (cols df_metrics))" "''Low'' \<in> set (map fst (cols df_metrics))"
    using assms(2) by (simp_all add: ohlcv_def)
  then obtain mhi mlo where met: "getitem df_metrics ''High'' = Inr mhi"
    "getitem df_metrics ''Low'' = Inr mlo"
    using getitem_present [of _ df_metrics] by metis
  have nonempty: "dropna cls \<noteq> []"
    using assms(4) by (auto simp: dropna_empty_iff)
  have "set numeric_cols \<subseteq> set (map fst (cols df_chart))"
    using names by (simp add: numeric_cols_def)
  then obtain df_table where tab: "round_cols numeric_cols df_chart = Inr df_table"
    using round_cols_returns by blast
  show ?thesis
    using names(6) chart met assms(3) nonempty tab
    by (simp add: derive_def reset_index_def create_figures_def metrics_def data_table_def
        bind_def iloc_last_def Let_def)
qed

lemma ohlcv_not_empty: "ohlcv df \<Longrightarrow> index df \<noteq> [] \<Longrightarrow> \<not> df_empty df"
  by (auto simp: ohlcv_def df_empty_def)

text \<open>
  C1. When both downloads return non-empty series of daily bars and some close of the
  metrics series is not missing, the callback returns a bundle whose three metric cards
  are computed from the metrics series alone: the latest close is the close of the last
  bar whose close is not missing (later bars with a missing close are skipped), the
  52-week high is the maximum of the highs and the 52-week low the minimum of the lows
  (missing values skipped, as pandas does).
\<close>

theorem metrics_from_metric_series:
  assumes "t \<noteq> []"
    and "provider (chart_request t start_date end_date) = Inr d1"
    and "provider (metrics_request t today) = Inr d2"
    and "n_rows d1 \<noteq> 0" and "n_rows d2 \<noteq> 0"
    and "ohlcv (flatten d1)" and "ohlcv (flatten d2)"
    and "getitem (flatten d2) ''Close'' = Inr cls" and "Some v \<in> set cls"
  shows "\<exists>out hi lo i latest.
      update_dashboard provider today n_clicks (Some t) start_date end_date =
        ([chart_request t start_date end_date, metrics_request t today], Inr out)
    \<and> getitem (flatten d2) ''High'' = Inr hi \<and> getitem (flatten d2) ''Low'' = Inr lo
    \<and> i < length cls \<and> cls ! i = Some latest
    \<and> (\<forall>j. i < j \<and> j < length cls \<longrightarrow> cls ! j = None)
    \<and> close_card out = CardBody ''Latest Close'' (Money (Some latest))
    \<and> high_card out = CardBody ''52-Week High'' (Money (series_max hi))
    \<and> low_card out = CardBody ''52-Week Low'' (Money (series_min lo))
    \<and> (\<forall>x. Some x \<in> set hi \<longrightarrow>
          (\<exists>m. series_max hi = Some m \<and> Some m \<in> set hi \<and> (\<forall>y. Some y \<in> set hi \<longrightarrow> y \<le> m)))
    \<and> (\<forall>x. Some x \<in> set lo \<longrightarrow>
          (\<exists>m. series_min lo = Some m \<and> Some m \<in> set lo \<and> (\<forall>y. Some y \<in> set lo \<longrightarrow> m \<le> y)))"
proof -
  have "index (flatten d1) \<noteq> []" "index (flatten d2) \<noteq> []"
    using assms(4,5) index_flatten [of d1] index_flatten [of d2] by auto
  then have ne: "\<not> df_empty (flatten d1)" "\<not> df_empty (flatten d2)"
    using assms(6,7) ohlcv_not_empty by blast+
  note f = fetch_data_ok [OF assms(2,3) ne]
  obtain out where out: "derive t (flatten d1) (flatten d2) = Inr out"
    using derive_returns [OF assms(6-9)] by blast
  have run: "update_dashboard provider today n_clicks (Some t) start_date end_date =
      ([chart_request t start_date end_date, metrics_request t today], Inr out)"
    using assms(1) out by (simp add: update_dashboard_def f)
  from derive_cards [OF out] assms(8) obtain hi lo where
    cards: "dropna cls \<noteq> []" "getitem (flatten d2) ''High'' = Inr hi"
      "getitem (flatten d2) ''Low'' = Inr lo"
      "close_card out = CardBody ''Latest Close'' (Money (Some (last (dropna cls))))"
      "high_card out = CardBody ''52-Week High'' (Money (series_max hi))"
      "low_card out = CardBody ''52-Week Low'' (Money (series_min lo))"
    by auto
  from last_dropna [OF cards(1)] obtain i where
    i: "i < length cls" "cls ! i = Some (last (dropna cls))"
      "\<forall>j. i < j \<and> j < length cls \<longrightarrow> cls ! j = None"
    by blast
  have hi: "\<forall>x. Some x \<in> set hi \<longrightarrow>
      (\<exists>m. series_max hi = Some m \<and> Some m \<in> set hi \<and> (\<forall>y. Some y \<in> set hi \<longrightarrow> y \<le> m))"
    using series_max_upper by blast
  have lo: "\<forall>x. Some x \<in> set lo \<longrightarrow>
      (\<exists>m. series_min lo = Some m \<and> Some m \<in> set lo \<and> (\<forall>y. Some y \<in> set lo \<longrightarrow> m \<le> y))"
    using series_min_lower by blast
  show ?thesis
    using run cards(2-6) i hi lo by blast
qed

theorem metrics_from_metric_series_witness:
  "\<exists>out. update_dashboard provider_sample 739000 1 (Some ''AAPL'') (Picked ''2024-01-01'')
        (Picked ''2024-01-05'') =
       ([chart_request ''AAPL'' (Picked ''2024-01-01'') (Picked ''2024-01-05''),
         metrics_request ''AAPL'' 739000], Inr out)
     \<and> close_card out = CardBody ''Latest Close'' (Money (Some 185.59))
     \<and> high_card out = CardBody ''52-Week High'' (Money (Some 186.74))
     \<and> low_card out = CardBody ''52-Week Low'' (Money (Some 180.17))"
proof -
  have h1: "''AAPL'' \<noteq> []"
    by simp
  have h2: "provider_sample (chart_request ''AAPL'' (Picked ''2024-01-01'') (Picked ''2024-01-05'')) =
      Inr (Single sample_chart)"
    by (simp add: provider_sample_def chart_request_def)
  have h3: "provider_sample (metrics_request ''AAPL'' 739000) = Inr (Single sample_metrics)"
    by (simp add: provider_sample_def metrics_request_def)
  have h4: "n_rows (Single sample_chart) \<noteq> 0" and h5: "n_rows (Single sample_metrics) \<noteq> 0"
    by (simp_all add: n_rows_def sample_chart_def sample_metrics_def sample_dates_def)
  have h6: "ohlcv (flatten (Single sample_chart))"
    by (simp add: ohlcv_def rectangular_def flatten_def sample_chart_def sample_dates_def)
  have h7: "ohlcv (flatten (Single sample_metrics))"
    by (simp add: ohlcv_def rectangular_def flatten_def sample_metrics_def sample_dates_def)
  have h8: "getitem (flatten (Single sample_metrics)) ''Close'' =
      Inr [Some 181.91, Some 185.59, None]"
    by (simp add: getitem_def flatten_def sample_metrics_def)
  have h9: "Some 185.59 \<in> set [Some 181.91, Some 185.59, None :: cell]"
    by simp
  from metrics_from_metric_series [OF h1 h2 h3 h4 h5 h6 h7 h8 h9, of 1]
  obtain out hi lo i latest where
    run: "update_dashboard provider_sample 739000 1 (Some ''AAPL'') (Picked ''2024-01-01'')
        (Picked ''2024-01-05'') =
       ([chart_request ''AAPL'' (Picked ''2024-01-01'') (Picked ''2024-01-05''),
         metrics_request ''AAPL'' 739000], Inr out)"
    and hi: "getitem (flatten (Single sample_metrics)) ''High'' = Inr hi"
    and lo: "getitem (flatten (Single sample_metrics)) ''Low'' = Inr lo"
    and i: "i < length [Some 181.91, Some 185.59, None :: cell]"
      "[Some 181.91, Some 185.59, None :: cell] ! i = Some latest"
      "\<forall>j. i < j \<and> j < length [Some 181.91, Some 185.59, None :: cell] \<longrightarrow>
         [Some 181.91, Some 185.59, None :: cell] ! j = None"
    and cards: "close_card out = CardBody ''Latest Close'' (Money (Some latest))"
      "high_card out = CardBody ''52-Week High'' (Money (series_max hi))"
      "low_card out = CardBody ''52-Week Low'' (Money (series_min lo))"
    by blast
  have "hi = [Some 182.76, Some 186.4, Some 186.74]"
    using hi by (simp add: getitem_def flatten_def sample_metrics_def)
  then have mx: "series_max hi = Some 186.74"
    by (simp add: series_max_def)
  have "lo = [Some 180.17, Some 183.92, Some 185.19]"
    using lo by (simp add: getitem_def flatten_def sample_metrics_def)
  then have mn: "series_min lo = Some 180.17"
    by (simp add: series_min_def)
  have "i = 0 \<or> i = 1 \<or> i = 2"
    using i(1) by auto
  moreover have "i \<noteq> 2"
    using i(2) by auto
  moreover have "i \<noteq> 0"
    using i(3) by (auto dest: spec [of _ 1])
  ultimately have "i = 1"
    by blast
  then have "latest = 185.59"
    using i(2) by simp
  with run cards mx mn show ?thesis
    by simp
qed

subsection \<open>The window of the metrics\<close>

text \<open>
  C6. The metrics are computed from the response to the request over the 365 days that
  end today, which does not mention the chosen range: two successful runs with the same
  ticker, the same provider and the same today, whatever their ranges, send that same
  request as their second one and return the same three metric cards.
\<close>

theorem metrics_independent_of_range:
  assumes "t \<noteq> []"
    and "snd (fetch_data provider today t start1 end1) = Inr (df_chart1, df_metrics1)"
    and "snd (fetch_data provider today t start2 end2) = Inr (df_chart2, df_metrics2)"
    and "snd (update_dashboard provider today n1 (Some t) start1 end1) = Inr out1"
    and "snd (update_dashboard provider today n2 (Some t) start2 end2) = Inr out2"
  shows "close_card out1 = close_card out2 \<and> high_card out1 = high_card out2
    \<and> low_card out1 = low_card out2
    \<and> fst (update_dashboard provider today n1 (Some t) start1 end1) ! 1 =
        \<lparr>req_ticker = t, req_start = Day (today - 365), req_end = Day today\<rparr>
    \<and> fst (update_dashboard provider today n2 (Some t) start2 end2) ! 1 =
        \<lparr>req_ticker = t, req_start = Day (today - 365), req_end = Day today\<rparr>"
proof -
  from fetch_data_success [OF assms(2)] fetch_data_success [OF assms(3)]
  have same: "df_metrics1 = df_metrics2"
    and calls: "fst (fetch_data provider today t start1 end1) =
        [chart_request t start1 end1, metrics_request t today]"
      "fst (fetch_data provider today t start2 end2) =
        [chart_request t start2 end2, metrics_request t today]"
    by auto
  have d1: "derive t df_chart1 df_metrics1 = Inr out1"
    using update_dashboard_derive [OF assms(1,2)] assms(4) by simp
  have d2: "derive t df_chart2 df_metrics1 = Inr out2"
    using update_dashboard_derive [OF assms(1,3)] assms(5) same by simp
  have cards: "close_card out1 = close_card out2 \<and> high_card out1 = high_card out2
      \<and> low_card out1 = low_card out2"
    using derive_cards [OF d1] derive_cards [OF d2] by auto
  have "fst (update_dashboard provider today n (Some t) s e) = fst (fetch_data provider today t s e)"
    for n s e
    using assms(1)
    by (cases "fetch_data provider today t s e") (auto simp: update_dashboard_def split: sum.splits)
  with calls cards show ?thesis
    by (simp add: metrics_request_def)
qed

theorem metrics_independent_of_range_witness:
  "\<exists>out1 out2.
     snd (update_dashboard provider_sample 739000 1 (Some ''AAPL'') (Picked ''2024-01-01'')
        (Picked ''2024-01-05'')) = Inr out1
   \<and> snd (update_dashboard provider_sample 739000 2 (Some ''AAPL'') (Picked ''2015-06-01'')
        (Picked ''2015-06-30'')) = Inr out2
   \<and> close_card out1 = close_card out2 \<and> high_card out1 = high_card out2
   \<and> low_card out1 = low_card out2"
proof -
  have t: "''AAPL'' \<noteq> []"
    by simp
  have f: "snd (fetch_data provider_sample 739000 ''AAPL'' (Picked x) (Picked y)) =
      Inr (sample_chart, sample_metrics)" for x y
    by (simp add: fetch_data_def provider_sample_def chart_request_def metrics_request_def
        flatten_def df_empty_def sample_chart_def sample_metrics_def sample_dates_def Let_def)
  have o: "ohlcv sample_chart" "ohlcv sample_metrics"
    by (simp_all add: ohlcv_def rectangular_def sample_chart_def sample_metrics_def
        sample_dates_def)
  have c: "getitem sample_metrics ''Close'' = Inr [Some 181.91, Some 185.59, None]"
    by (simp add: getitem_def sample_metrics_def)
  have v: "Some 185.59 \<in> set [Some 181.91, Some 185.59, None :: cell]"
    by simp
  obtain out where out: "derive ''AAPL'' sample_chart sample_metrics = Inr out"
    using derive_returns [OF o c v] by blast
  have r: "snd (update_dashboard provider_sample 739000 n (Some ''AAPL'') (Picked x) (Picked y)) =
      Inr out" for n x y
    using update_dashboard_derive [OF t f] out by simp
  from metrics_independent_of_range [OF t f f r r] r show ?thesis
    by blast
qed

text \<open>
  C7. In a successful run over a non-empty metrics series every bar of which satisfies
  \<open>low <= high\<close> (the guarantee of the provider, which the code does not check), the
  52-week high of the bundle is at least its 52-week low.
\<close>

theorem week52_high_ge_low:
  assumes "t \<noteq> []"
    and "snd (fetch_data provider today t start_date end_date) = Inr (df_chart, df_metrics)"
    and "snd (update_dashboard provider today n_clicks (Some t) start_date end_date) = Inr out"
    and "rectangular df_metrics"
    and "getitem df_metrics ''High'' = Inr hi" and "getitem df_metrics ''Low'' = Inr lo"
    and "\<forall>i < length (index df_metrics). cell_le (lo ! i) (hi ! i)"
  shows "\<exists>h l. series_max hi = Some h \<and> series_min lo = Some l
    \<and> high_card out = CardBody ''52-Week High'' (Money (Some h))
    \<and> low_card out = CardBody ''52-Week Low'' (Money (Some l)) \<and> l \<le> h"
proof -
  have d: "derive t df_chart df_metrics = Inr out"
    using update_dashboard_derive [OF assms(1,2)] assms(3) by simp
  from derive_cards [OF d] assms(5,6)
  have cards: "high_card out = CardBody ''52-Week High'' (Money (series_max hi))"
    "low_card out = CardBody ''52-Week Low'' (Money (series_min lo))"
    by auto
  have "\<not> df_empty df_metrics"
    using fetch_data_success [OF assms(2)] by blast
  then have pos: "0 < length (index df_metrics)"
    by (simp add: df_empty_def)
  have len: "length hi = length (index df_metrics)" "length lo = length (index df_metrics)"
    using rectangular_length [OF assms(4)] assms(5,6) by blast+
  from assms(7) pos have "cell_le (lo ! 0) (hi ! 0)"
    by blast
  then obtain l0 h0 where b: "lo ! 0 = Some l0" "hi ! 0 = Some h0" "l0 \<le> h0"
    by (auto simp: cell_le_def split: option.splits)
  have "Some l0 \<in> set lo" "Some h0 \<in> set hi"
    using b(1,2) pos len nth_mem [of 0 lo] nth_mem [of 0 hi] by auto
  with series_min_lower [of l0 lo] series_max_upper [of h0 hi]
  obtain l h where lh: "series_min lo = Some l" "l \<le> l0" "series_max hi = Some h" "h0 \<le> h"
    by blast
  then have "l \<le> h"
    using b(3) by linarith
  with cards lh show ?thesis
    by simp
qed

theorem week52_high_ge_low_witness:
  "\<exists>out. snd (update_dashboard provider_sample 739000 1 (Some ''AAPL'') (Picked ''2024-01-01'')
        (Picked ''2024-01-05'')) = Inr out
     \<and> high_card out = CardBody ''52-Week High'' (Money (Some 186.74))
     \<and> low_card out = CardBody ''52-Week Low'' (Money (Some 180.17))
     \<and> (180.17 :: real) \<le> 186.74"
proof -
  have t: "''AAPL'' \<noteq> []"
    by simp
  have f: "snd (fetch_data provider_sample 739000 ''AAPL'' (Picked ''2024-01-01'')
      (Picked ''2024-01-05'')) = Inr (sample_chart, sample_metrics)"
    by (simp add: fetch_data_def provider_sample_def chart_request_def metrics_request_def
        flatten_def df_empty_def sample_chart_def sample_metrics_def sample_dates_def Let_def)
  have o: "ohlcv sample_chart" "ohlcv sample_metrics"
    by (simp_all add: ohlcv_def rectangular_def sample_chart_def sample_metrics_def
        sample_dates_def)
  have c: "getitem sample_metrics ''Close'' = Inr [Some 181.91, Some 185.59, None]"
    by (simp add: getitem_def sample_metrics_def)
  have v: "Some 185.59 \<in> set [Some 181.91, Some 185.59, None :: cell]"
    by simp
  obtain out where out: "derive ''AAPL'' sample_chart sample_metrics = Inr out"
    using derive_returns [OF o c v] by blast
  have r: "snd (update_dashboard provider_sample 739000 1 (Some ''AAPL'') (Picked ''2024-01-01'')
      (Picked ''2024-01-05'')) = Inr out"
    using update_dashboard_derive [OF t f] out by simp
  have rect: "rectangular sample_metrics"
    using o(2) by (simp add: ohlcv_def)
  have hi: "getitem sample_metrics ''High'' = Inr [Some 182.76, Some 186.4, Some 186.74]"
    by (simp add: getitem_def sample_metrics_def)
  have lo: "getitem sample_metrics ''Low'' = Inr [Some 180.17, Some 183.92, Some 185.19]"
    by (simp add: getitem_def sample_metrics_def)
  have bars: "\<forall>i < length (index sample_metrics).
      cell_le ([Some 180.17, Some 183.92, Some 185.19] ! i)
        ([Some 182.76, Some 186.4, Some 186.74] ! i)"
    by (simp add: sample_metrics_def sample_dates_def cell_le_def less_Suc_eq
        numeral_3_eq_3)
  from week52_high_ge_low [OF t f r rect hi lo bars] r show ?thesis
    by (auto simp: series_max_def series_min_def)
qed

subsection \<open>The table\<close>

lemma rint_nearest:
  "\<bar>of_int (rint y) - y\<bar> \<le> 1 / 2 \<and> (\<bar>of_int (rint y) - y\<bar> = 1 / 2 \<longrightarrow> even (rint y))"
proof -
  define f where "f = \<lfloor>y\<rfloor>"
  define d where "d = y - of_int f"
  have d: "0 \<le> d" "d < 1"
    unfolding d_def f_def by linarith+
  have y: "y = of_int f + d"
    by (simp add: d_def)
  have r: "rint y = (if d < 1 / 2 then f else if 1 / 2 < d then f + 1
      else if even f then f else f + 1)"
    by (simp add: rint_def Let_def f_def d_def)
  consider "d < 1 / 2" | "1 / 2 < d" | "d = 1 / 2" "even f" | "d = 1 / 2" "odd f"
    by fastforce
  then show ?thesis
  proof cases
    case 1
    then have "rint y = f" by (simp add: r)
    with 1 d y show ?thesis by simp
  next
    case 2
    then have "rint y = f + 1" by (simp add: r)
    with 2 d y show ?thesis by simp
  next
    case 3
    then have "rint y = f" by (simp add: r)
    with 3 y show ?thesis by simp
  next
    case 4
    then have "rint y = f + 1" by (simp add: r)
    with 4 y show ?thesis by simp
  qed
qed

lemma names_flatten: "map fst (cols (flatten r)) = top_level_names r"
  by (cases r) (simp_all add: flatten_def top_level_names_def case_prod_unfold comp_def)

lemma dates_flatten: "index (flatten r) = dates_of r"
  by (cases r) (simp_all add: flatten_def dates_of_def)

lemma derive_table:
  assumes "derive t df_chart df_metrics = Inr out"
  shows "\<exists>df_table. round_cols numeric_cols df_chart = Inr df_table
    \<and> table_data out = to_records (map strftime (index df_chart)) df_table
    \<and> table_cols out = map (\<lambda>i. ColumnSpec i i) (''Date'' # map fst (cols df_table))"
  using assms
  by (auto simp: derive_def data_table_def reset_index_def bind_def Let_def
      split: sum.splits prod.splits if_splits)

lemma to_records_row:
  "i < length dates \<Longrightarrow>
     to_records dates df ! i =
       (''Date'', Str (dates ! i)) # map (\<lambda>(n, s). (n, Num (s ! i))) (cols df)"
  by (simp add: to_records_def)

lemma map_of_row:
  "map_of (map (\<lambda>(n, s). (n, Num (s ! i))) xs) k = map_option (\<lambda>s. Num (s ! i)) (map_of xs k)"
  by (induction xs) auto

lemma names_row: "map fst (map (\<lambda>(n, s). (n, Num (s ! i))) xs) = map fst xs"
  by (induction xs) auto

lemma series_round_nth: "i < length s \<Longrightarrow> series_round s ! i = map_option round2 (s ! i)"
  by (simp add: series_round_def)

lemma table_row:
  assumes "round_cols numeric_cols df = Inr df_table"
    and "rectangular df" and "''Date'' \<notin> set (map fst (cols df))"
    and "i < length (index df)"
  shows "map fst (to_records (map strftime (index df)) df_table ! i) = ''Date'' # map fst (cols df)
    \<and> map_of (to_records (map strftime (index df)) df_table ! i) ''Date'' =
        Some (Str (strftime (index df ! i)))
    \<and> (\<forall>c s. getitem df c = Inr s \<longrightarrow>
          map_of (to_records (map strftime (index df)) df_table ! i) c =
            Some (Num (if c \<in> set numeric_cols then map_option round2 (s ! i) else s ! i)))"
proof -
  have dist: "distinct numeric_cols"
    by (simp add: numeric_cols_def)
  note res = round_cols_result [OF assms(1) dist]
  have row: "to_records (map strftime (index df)) df_table ! i =
      (''Date'', Str (strftime (index df ! i))) # map (\<lambda>(n, s). (n, Num (s ! i))) (cols df_table)"
    using assms(4) by (simp add: to_records_row)
  have "map_of (to_records (map strftime (index df)) df_table ! i) c =
      Some (Num (if c \<in> set numeric_cols then map_option round2 (s ! i) else s ! i))"
    if g: "getitem df c = Inr s" for c s
  proof -
    have "(c, s) \<in> set (cols df)"
      using g by (rule getitem_in_cols)
    then have "c \<in> set (map fst (cols df))"
      by force
    with assms(3) have c: "c \<noteq> ''Date''"
      by blast
    have m: "map_of (cols df) c = Some s"
      using g by (simp add: getitem_Inr)
    have "i < length s"
      using rectangular_length [OF assms(2) g] assms(4) by simp
    then show ?thesis
      using c m res by (simp add: row map_of_row series_round_nth)
  qed
  moreover have "map fst (to_records (map strftime (index df)) df_table ! i) =
      ''Date'' # map fst (cols df)"
    using res by (simp add: row names_row del: map_map)
  moreover have "map_of (to_records (map strftime (index df)) df_table ! i) ''Date'' =
      Some (Str (strftime (index df ! i)))"
    by (simp add: row)
  ultimately show ?thesis
    by blast
qed

subsection \<open>Float arithmetic\<close>

lemma pow2_powr: "pow2 k = 2 powr (real_of_int k)"
proof (cases "0 \<le> k")
  case True
  then have "real_of_int k = real (nat k)"
    by simp
  then have "(2::real) powr (real_of_int k) = 2 ^ nat k"
    by (simp only: powr_realpow [of 2 "nat k"]) 
  with True show ?thesis
    by (simp add: pow2_def)
next
  case False
  then have "real_of_int k = - real (nat (- k))"
    by simp
  then have "(2::real) powr (real_of_int k) = 1 / 2 powr (real (nat (- k)))"
    by (simp only: powr_minus_divide)
  also have "\<dots> = 1 / 2 ^ nat (- k)"
    by (simp add: powr_realpow)
  finally show ?thesis
    using False by (simp add: pow2_def)
qed

lemma pow2_le_iff: "pow2 a \<le> pow2 b \<longleftrightarrow> a \<le> b"
  by (simp add: pow2_powr)

lemma pow2_less_iff: "pow2 a < pow2 b \<longleftrightarrow> a < b"
  by (simp add: pow2_powr)

lemma exponent_from_binade:
  assumes "pow2 e \<le> a" and "a < pow2 (e + 1)" and "- 1022 \<le> e" and "e \<le> int n - 1022"
  shows "exponent_from n a = e"
  using assms(4)
proof (induction n)
  case 0
  with assms(3) show ?case by simp
next
  case (Suc n)
  show ?case
  proof (cases "pow2 (int (Suc n) - 1022) \<le> a")
    case True
    with assms(2) have "pow2 (int (Suc n) - 1022) < pow2 (e + 1)"
      by linarith
    then have "int (Suc n) - 1022 < e + 1"
      by (simp only: pow2_less_iff)
    with Suc.prems True show ?thesis
      by simp
  next
    case False
    with assms(1) have "pow2 e < pow2 (int (Suc n) - 1022)"
      by linarith
    then have "e < int (Suc n) - 1022"
      by (simp only: pow2_less_iff)
    then have "e \<le> int n - 1022"
      by simp
    from Suc.IH [OF this] False show ?thesis
      by simp
  qed
qed

lemma fl_binade:
  assumes "pow2 e \<le> \<bar>x\<bar>" and "\<bar>x\<bar> < pow2 (e + 1)" and "- 1022 \<le> e" and "e \<le> 1023"
  shows "fl x = of_int (rint (x / pow2 (e - 52))) * pow2 (e - 52)"
proof -
  have "float_exponent x = e"
    unfolding float_exponent_def using assms by (intro exponent_from_binade) simp_all
  then show ?thesis
    by (simp add: fl_def Let_def)
qed

lemma fl_123_456: "fl 123.456 = 8687443681197687 / 2 ^ 46"
  using fl_binade [of 6 "123.456"] by (simp add: pow2_def rint_def Let_def)

lemma fl_185_125: "fl 185.125 = 185.125"
  using fl_binade [of 7 "185.125"] by (simp add: pow2_def rint_def Let_def)

lemma fl_123_46: "fl 123.46 = 8687725156174397 / 2 ^ 46"
  using fl_binade [of 6 "123.46"] by (simp add: pow2_def rint_def Let_def)

lemma fl_185_12: "fl 185.12 = 1628332740271145 / 2 ^ 43"
  using fl_binade [of 7 "185.12"] by (simp add: pow2_def rint_def Let_def)

lemma fl_185_13: "fl 185.13 = 1628420701201367 / 2 ^ 43"
  using fl_binade [of 7 "185.13"] by (simp add: pow2_def rint_def Let_def)

lemma fl_2_675: "fl 2.675 = 3011782250804019 / 2 ^ 50"
  using fl_binade [of 1 "2.675"] by (simp add: pow2_def rint_def Let_def)

lemma fl_2_68: "fl 2.68 = 6034823500676465 / 2 ^ 51"
  using fl_binade [of 1 "2.68"] by (simp add: pow2_def rint_def Let_def)

lemma rint_of_int: "rint (of_int m) = m"
  by (simp add: rint_def Let_def)

lemma fl_exact:
  assumes "pow2 e \<le> \<bar>x\<bar>" and "\<bar>x\<bar> < pow2 (e + 1)" and "- 1022 \<le> e" and "e \<le> 1023"
    and "of_int \<lfloor>x / pow2 (e - 52)\<rfloor> = x / pow2 (e - 52)"
  shows "fl x = x"
proof -
  have p: "pow2 (e - 52) \<noteq> 0"
    by (simp add: pow2_def)
  have "rint (x / pow2 (e - 52)) = \<lfloor>x / pow2 (e - 52)\<rfloor>"
    using rint_of_int [of "\<lfloor>x / pow2 (e - 52)\<rfloor>"] assms(5) by simp
  then have "fl x = x / pow2 (e - 52) * pow2 (e - 52)"
    using fl_binade [OF assms(1-4)] assms(5) by simp
  with p show ?thesis
    by simp
qed

lemma round2_123_456: "round2 (fl 123.456) = fl 123.46"
proof -
  have "fl (fl 123.456 * 100) = 6787065375935693 / 2 ^ 39"
    unfolding fl_123_456
    using fl_binade [of 13 "8687443681197687 / 2 ^ 46 * 100"]
    by (simp add: pow2_def rint_def Let_def)
  then have "rint (fl (fl 123.456 * 100)) = rint (6787065375935693 / 2 ^ 39)"
    by (simp only:)
  also have "\<dots> = 12346"
    by (simp add: rint_def Let_def)
  finally have r: "rint (fl (fl 123.456 * 100)) = 12346" .
  show ?thesis
    unfolding round2_def r by simp
qed

lemma round2_185_125: "round2 185.125 = fl 185.12"
proof -
  have "fl (185.125 * 100) = 18512.5"
    using fl_exact [of 14 "185.125 * 100"] by (simp add: pow2_def)
  then have "rint (fl (185.125 * 100)) = rint 18512.5"
    by (simp only:)
  also have "\<dots> = 18512"
    by (simp add: rint_def Let_def)
  finally have r: "rint (fl (185.125 * 100)) = 18512" .
  show ?thesis
    unfolding round2_def r by simp
qed

lemma round2_2_675: "round2 (fl 2.675) = fl 2.68"
proof -
  have "fl (fl 2.675 * 100) = 267.5"
    unfolding fl_2_675
    using fl_binade [of 8 "3011782250804019 / 2 ^ 50 * 100"]
    by (simp add: pow2_def rint_def Let_def)
  then have "rint (fl (fl 2.675 * 100)) = rint 267.5"
    by (simp only:)
  also have "\<dots> = 268"
    by (simp add: rint_def Let_def)
  finally have r: "rint (fl (fl 2.675 * 100)) = 268" .
  show ?thesis
    unfolding round2_def r by simp
qed

lemma float64_binade7:
  assumes "128 \<le> x" and "x < 256" and "of_int \<lfloor>x * 2 ^ 45\<rfloor> = x * 2 ^ 45"
  shows "float64 x"
proof -
  have "fl x = x"
    using fl_exact [of 7 x] assms by (simp add: pow2_def)
  moreover have "\<bar>x\<bar> < 2 ^ 1024"
  proof -
    have "(256::real) \<le> 2 ^ 1024"
      using power_increasing [of 8 1024 "2::real"] by simp
    with assms(1,2) show ?thesis by simp
  qed
  ultimately show ?thesis
    by (simp add: float64_def)
qed

lemma roundable_binade7:
  assumes "128 \<le> x" and "x < 256" and "of_int \<lfloor>x * 2 ^ 45\<rfloor> = x * 2 ^ 45"
  shows "roundable (Some x)"
proof -
  have "(25600::real) \<le> 2 ^ 1023"
    using power_increasing [of 15 1023 "2::real"] by simp
  with assms(1,2) have "\<bar>x\<bar> * 100 < 2 ^ 1023"
    by simp
  with float64_binade7 [OF assms] show ?thesis
    by (simp add: roundable_def)
qed

lemma float_prices_sample: "float_prices sample_prices"
  by (simp add: float_prices_def sample_prices_def numeric_cols_def roundable_binade7)

text \<open>
  C2, as the code has it. When both downloads return non-empty series of daily bars whose
  prices are finite floats, and some close of the metrics series is not missing, the
  callback returns a bundle whose table has one row per bar of the chart series; the
  keys of every row, and the column schema with the label equal to the name, are \<open>Date\<close>
  followed by the column names in order; \<open>Date\<close> is the formatted date; \<open>Open\<close>,
  \<open>High\<close>, \<open>Low\<close> and \<open>Close\<close> are the source values rounded as numpy does it in
  float64 (the product by 100, the nearest integer with a tie going to the even one,
  the quotient by 100); and every other column, \<open>Volume\<close> among them, is the source
  value. The float written 123.456 gives the float written 123.46, the tie 185.125
  gives 185.12, and 2.675 gives 2.68.
\<close>

theorem table_rows_rounded:
  assumes "t \<noteq> []"
    and "provider (chart_request t start_date end_date) = Inr d1"
    and "provider (metrics_request t today) = Inr d2"
    and "n_rows d1 \<noteq> 0" and "n_rows d2 \<noteq> 0"
    and "ohlcv (flatten d1)" and "ohlcv (flatten d2)"
    and "getitem (flatten d2) ''Close'' = Inr cls" and "Some v \<in> set cls"
    and "float_prices (flatten d1)"
  shows "\<exists>out.
      update_dashboard provider today n_clicks (Some t) start_date end_date =
        ([chart_request t start_date end_date, metrics_request t today], Inr out)
    \<and> length (table_data out) = n_rows d1
    \<and> table_cols out = map (\<lambda>n. ColumnSpec n n) (''Date'' # top_level_names d1)
    \<and> (\<forall>i < n_rows d1.
          map fst (table_data out ! i) = ''Date'' # top_level_names d1
        \<and> map_of (table_data out ! i) ''Date'' = Some (Str (strftime (dates_of d1 ! i)))
        \<and> (\<forall>c s. getitem (flatten d1) c = Inr s \<longrightarrow>
              map_of (table_data out ! i) c =
                Some (Num (if c \<in> set [''Open'', ''High'', ''Low'', ''Close'']
                           then map_option round2 (s ! i) else s ! i))))
    \<and> (\<forall>x. round2 x = fl (of_int (rint (fl (x * 100))) / 100))
    \<and> round2 (fl 123.456) = fl 123.46
    \<and> round2 185.125 = fl 185.12
    \<and> round2 (fl 2.675) = fl 2.68"
proof -
  have idx: "index (flatten d1) \<noteq> []" "index (flatten d2) \<noteq> []"
    using assms(4,5) index_flatten [of d1] index_flatten [of d2] by auto
  then have ne: "\<not> df_empty (flatten d1)" "\<not> df_empty (flatten d2)"
    using assms(6,7) ohlcv_not_empty by blast+
  note f = fetch_data_ok [OF assms(2,3) ne]
  obtain out where out: "derive t (flatten d1) (flatten d2) = Inr out"
    using derive_returns [OF assms(6-9)] by blast
  have run: "update_dashboard provider today n_clicks (Some t) start_date end_date =
      ([chart_request t start_date end_date, metrics_request t today], Inr out)"
    using assms(1) out by (simp add: update_dashboard_def f)
  from derive_table [OF out] obtain df_table where
    tab: "round_cols numeric_cols (flatten d1) = Inr df_table"
      "table_data out = to_records (map strftime (index (flatten d1))) df_table"
      "table_cols out = map (\<lambda>i. ColumnSpec i i) (''Date'' # map fst (cols df_table))"
    by blast
  have rect: "rectangular (flatten d1)" and nodate: "''Date'' \<notin> set (map fst (cols (flatten d1)))"
    using assms(6) by (simp_all add: ohlcv_def)
  have names: "map fst (cols df_table) = top_level_names d1"
    using round_cols_result [OF tab(1)] by (simp add: numeric_cols_def names_flatten)
  have len: "length (table_data out) = n_rows d1"
    by (simp add: tab(2) to_records_def index_flatten)
  have rows: "map fst (table_data out ! i) = ''Date'' # top_level_names d1
      \<and> map_of (table_data out ! i) ''Date'' = Some (Str (strftime (dates_of d1 ! i)))
      \<and> (\<forall>c s. getitem (flatten d1) c = Inr s \<longrightarrow>
            map_of (table_data out ! i) c =
              Some (Num (if c \<in> set [''Open'', ''High'', ''Low'', ''Close'']
                         then map_option round2 (s ! i) else s ! i)))"
    if "i < n_rows d1" for i
  proof -
    have "i < length (index (flatten d1))"
      using that by (simp add: index_flatten)
    from table_row [OF tab(1) rect nodate this] show ?thesis
      by (simp add: tab(2) names_flatten dates_flatten numeric_cols_def)
  qed
  have schema: "table_cols out = map (\<lambda>n. ColumnSpec n n) (''Date'' # top_level_names d1)"
    using tab(3) names by simp
  have all_rows: "\<forall>i < n_rows d1.
      map fst (table_data out ! i) = ''Date'' # top_level_names d1
      \<and> map_of (table_data out ! i) ''Date'' = Some (Str (strftime (dates_of d1 ! i)))
      \<and> (\<forall>c s. getitem (flatten d1) c = Inr s \<longrightarrow>
            map_of (table_data out ! i) c =
              Some (Num (if c \<in> set [''Open'', ''High'', ''Low'', ''Close'']
                         then map_option round2 (s ! i) else s ! i)))"
    using rows by blast
  have float_round: "\<forall>x. round2 x = fl (of_int (rint (fl (x * 100))) / 100)"
    by (simp add: round2_def)
  show ?thesis
    by (intro exI [of _ out] conjI run len schema all_rows float_round
        round2_123_456 round2_185_125 round2_2_675)
qed

lemma sample_prices_hypotheses:
  "provider_prices (chart_request ''AAPL'' (Picked ''2024-01-04'') (Picked ''2024-01-06'')) =
      Inr (Single sample_prices)
   \<and> provider_prices (metrics_request ''AAPL'' 739000) = Inr (Single sample_metrics)
   \<and> n_rows (Single sample_prices) = 2 \<and> n_rows (Single sample_metrics) \<noteq> 0
   \<and> flatten (Single sample_prices) = sample_prices
   \<and> flatten (Single sample_metrics) = sample_metrics
   \<and> ohlcv sample_prices \<and> ohlcv sample_metrics
   \<and> getitem sample_metrics ''Close'' = Inr [Some 181.91, Some 185.59, None]
   \<and> getitem sample_prices ''Close'' = Inr [Some 185.125, Some 186.75]
   \<and> getitem sample_prices ''Volume'' = Inr [Some 3000, Some 4000]"
  by (simp add: provider_prices_def chart_request_def metrics_request_def n_rows_def
      flatten_def ohlcv_def rectangular_def getitem_def sample_prices_def sample_metrics_def
      sample_dates_def)

theorem table_rows_rounded_witness:
  "\<exists>out. update_dashboard provider_prices 739000 1 (Some ''AAPL'') (Picked ''2024-01-04'')
        (Picked ''2024-01-06'') =
       ([chart_request ''AAPL'' (Picked ''2024-01-04'') (Picked ''2024-01-06''),
         metrics_request ''AAPL'' 739000], Inr out)
     \<and> length (table_data out) = 2
     \<and> map_of (table_data out ! 0) ''Close'' = Some (Num (Some (fl 185.12)))
     \<and> map_of (table_data out ! 0) ''Volume'' = Some (Num (Some 3000))
     \<and> map fst (table_data out ! 0) = [''Date'', ''Close'', ''High'', ''Low'', ''Open'', ''Volume'']"
proof -
  note h = sample_prices_hypotheses
  have h1: "''AAPL'' \<noteq> []"
    by simp
  have h2: "provider_prices (chart_request ''AAPL'' (Picked ''2024-01-04'') (Picked ''2024-01-06'')) =
      Inr (Single sample_prices)"
    and h3: "provider_prices (metrics_request ''AAPL'' 739000) = Inr (Single sample_metrics)"
    and n: "n_rows (Single sample_prices) = 2"
    and h5: "n_rows (Single sample_metrics) \<noteq> 0"
    and fc: "flatten (Single sample_prices) = sample_prices"
    and fm: "flatten (Single sample_metrics) = sample_metrics"
    and o: "ohlcv sample_prices" "ohlcv sample_metrics"
    and h8: "getitem sample_metrics ''Close'' = Inr [Some 181.91, Some 185.59, None]"
    and cl: "getitem sample_prices ''Close'' = Inr [Some 185.125, Some 186.75]"
    and vo: "getitem sample_prices ''Volume'' = Inr [Some 3000, Some 4000]"
    using h by blast+
  have h4: "n_rows (Single sample_prices) \<noteq> 0"
    using n by simp
  have h9: "Some 185.59 \<in> set [Some 181.91, Some 185.59, None :: cell]"
    by simp
  from table_rows_rounded [of "''AAPL''" provider_prices "Picked ''2024-01-04''"
      "Picked ''2024-01-06''" "Single sample_prices" 739000 "Single sample_metrics"
      "[Some 181.91, Some 185.59, None]" "185.59" 1, unfolded fc fm,
      OF h1 h2 h3 h4 h5 o h8 h9 float_prices_sample]
  obtain out where
    run: "update_dashboard provider_prices 739000 1 (Some ''AAPL'') (Picked ''2024-01-04'')
        (Picked ''2024-01-06'') =
       ([chart_request ''AAPL'' (Picked ''2024-01-04'') (Picked ''2024-01-06''),
         metrics_request ''AAPL'' 739000], Inr out)"
    and len: "length (table_data out) = n_rows (Single sample_prices)"
    and rows: "\<forall>i < n_rows (Single sample_prices).
        map fst (table_data out ! i) = ''Date'' # top_level_names (Single sample_prices)
      \<and> map_of (table_data out ! i) ''Date'' =
          Some (Str (strftime (dates_of (Single sample_prices) ! i)))
      \<and> (\<forall>c s. getitem sample_prices c = Inr s \<longrightarrow>
            map_of (table_data out ! i) c =
              Some (Num (if c \<in> set [''Open'', ''High'', ''Low'', ''Close'']
                         then map_option round2 (s ! i) else s ! i)))"
    by blast
  have r0: "map fst (table_data out ! 0) = ''Date'' # top_level_names (Single sample_prices)"
    and g: "\<And>c s. getitem sample_prices c = Inr s \<Longrightarrow>
        map_of (table_data out ! 0) c =
          Some (Num (if c \<in> set [''Open'', ''High'', ''Low'', ''Close'']
                     then map_option round2 (s ! 0) else s ! 0))"
    using rows n by simp_all
  have "map_of (table_data out ! 0) ''Close'' = Some (Num (Some (round2 185.125)))"
    using g [OF cl] by simp
  then have "map_of (table_data out ! 0) ''Close'' = Some (Num (Some (fl 185.12)))"
    by (simp only: round2_185_125)
  moreover have "map_of (table_data out ! 0) ''Volume'' = Some (Num (Some 3000))"
    using g [OF vo] by simp
  moreover have "map fst (table_data out ! 0) =
      [''Date'', ''Close'', ''High'', ''Low'', ''Open'', ''Volume'']"
    using r0 by (simp add: top_level_names_def sample_prices_def)
  ultimately show ?thesis
    using run len n by simp
qed

lemma sample_prices_close:
  "map_sum id (cell_at 0 ''Close'')
     (snd (update_dashboard provider_prices 739000 1 (Some ''AAPL'') (Picked ''2024-01-04'')
        (Picked ''2024-01-06''))) = Inr (Some (Num (Some (round2 185.125))))"
proof -
  note h = sample_prices_hypotheses
  have ne: "\<not> df_empty sample_prices" "\<not> df_empty sample_metrics"
    by (simp_all add: df_empty_def sample_prices_def sample_metrics_def sample_dates_def)
  have f: "fetch_data provider_prices 739000 ''AAPL'' (Picked ''2024-01-04'')
      (Picked ''2024-01-06'') =
      ([chart_request ''AAPL'' (Picked ''2024-01-04'') (Picked ''2024-01-06''),
        metrics_request ''AAPL'' 739000], Inr (sample_prices, sample_metrics))"
    using h ne by (simp add: fetch_data_def Let_def)
  have v: "Some 185.59 \<in> set [Some 181.91, Some 185.59, None :: cell]"
    by simp
  obtain out where out: "derive ''AAPL'' sample_prices sample_metrics = Inr out"
    using derive_returns [of sample_prices sample_metrics _ "185.59"] h v by blast
  from derive_table [OF out] obtain df_table where
    tab: "round_cols numeric_cols sample_prices = Inr df_table"
      "table_data out = to_records (map strftime (index sample_prices)) df_table"
    by blast
  have rect: "rectangular sample_prices" and nodate: "''Date'' \<notin> set (map fst (cols sample_prices))"
    using h by (simp_all add: ohlcv_def)
  have i: "0 < length (index sample_prices)"
    by (simp add: sample_prices_def)
  have cl: "getitem sample_prices ''Close'' = Inr [Some 185.125, Some 186.75]"
    using h by blast
  from table_row [OF tab(1) rect nodate i] cl
  have "map_of (table_data out ! 0) ''Close'' = Some (Num (Some (round2 185.125)))"
    by (simp add: tab(2) numeric_cols_def)
  then show ?thesis
    using out by (simp add: update_dashboard_def f cell_at_def)
qed

text \<open>
  The claim as written fails on a tie. 185.125 and 18512.5 are floats, so the scaled
  value is exactly halfway: the table holds the float written 185.12, the even
  hundredth, where standard rounding gives 185.13.
\<close>

theorem table_tie_goes_to_even:
  "getitem sample_prices ''Close'' = Inr [Some 185.125, Some 186.75]
   \<and> map_sum id (cell_at 0 ''Close'')
       (snd (update_dashboard provider_prices 739000 1 (Some ''AAPL'') (Picked ''2024-01-04'')
          (Picked ''2024-01-06''))) = Inr (Some (Num (Some (fl 185.12))))
   \<and> round_half_up2 185.125 = 185.13
   \<and> fl 185.12 < fl (round_half_up2 185.125)"
proof -
  have a: "getitem sample_prices ''Close'' = Inr [Some 185.125, Some 186.75]"
    using sample_prices_hypotheses by blast
  have b: "map_sum id (cell_at 0 ''Close'')
      (snd (update_dashboard provider_prices 739000 1 (Some ''AAPL'') (Picked ''2024-01-04'')
         (Picked ''2024-01-06''))) = Inr (Some (Num (Some (fl 185.12))))"
    using sample_prices_close by (simp only: round2_185_125)
  have c: "round_half_up2 185.125 = 185.13"
    by (simp add: round_half_up2_def)
  have "fl 185.12 < fl 185.13"
    by (simp only: fl_185_12 fl_185_13) simp
  then have d: "fl 185.12 < fl (round_half_up2 185.125)"
    by (simp only: c)
  show ?thesis
    by (intro conjI a b c d)
qed

text \<open>
  Without the guarantee of the provider the order of the two metrics can fail: on a
  single bar with high 1 and low 2 the 52-week high is below the 52-week low.
\<close>

lemma high_below_low_without_guarantee:
  "series_max [Some 1] = Some 1 \<and> series_min [Some 2] = Some 2
   \<and> \<not> cell_le (series_min [Some 2]) (series_max [Some 1])"
  by (simp add: series_max_def series_min_def cell_le_def)

end
